theory Spec2Isabelle
  imports Main
begin

section \<open>Values exchanged with the record API\<close>

text \<open>
  Request parameters, function specifications and cell values are JSON values; Python's
  \<open>None\<close> is \<open>JNull\<close>. \<open>truthy\<close> is Python's truth test on such a value, which the
  source applies in \<open>if filter_unprocessed or db_function_unprocessed\<close> and in
  \<open>GroupBy(**grouping) if grouping else None\<close>.
\<close>

datatype json =
    JNull
  | JBool bool
  | JNum int
  | JStr string
  | JArr "json list"
  | JObj "(string \<times> json) list"

fun truthy :: "json \<Rightarrow> bool" where
  "truthy JNull = False"
| "truthy (JBool b) = b"
| "truthy (JNum n) = (n \<noteq> 0)"
| "truthy (JStr s) = (s \<noteq> [])"
| "truthy (JArr xs) = (xs \<noteq> [])"
| "truthy (JObj kvs) = (kvs \<noteq> [])"

type_synonym row = "(string \<times> json) list"

type_synonym table_pk = nat

section \<open>Exceptions\<close>

datatype pg_error_class =
    NotNullViolation
  | UniqueViolation
  | ForeignKeyViolation
  | CheckViolation

record pg_error =
  pg_class :: pg_error_class
  pg_message :: string
  pg_column :: "string option"

datatype api_exception_class =
    BadFilterAPIException
  | BadSortAPIException
  | BadGroupAPIException
  | NotNullViolationAPIException
  | MathesarAPIException

text \<open>
  The exceptions that can reach the views: those the two source files name, the failure of
  the \<open>assert\<close> in \<open>create\<close>, the validation error of the parameter serializer, and any
  other error of a collaborator. \<open>APIException\<close> is an exception of
  \<open>mathesar.api.exceptions.database_exceptions\<close> as the views construct it: its class, the
  exception it wraps, and the keyword arguments \<open>field\<close>, \<open>status_code\<close> and \<open>table\<close>
  (the table is kept by its primary key).
\<close>

datatype exn =
    BadDBFunctionFormat
  | UnknownDBFunctionID
  | ReferencedColumnsDontExist
  | BadSortFormat
  | SortFieldNotFound
  | BadGroupFormat
  | GroupFieldNotFound
  | InvalidGroupType
  | NotFound
  | ValidationError
  | AssertionError
  | IntegrityError pg_error
  | OtherError string
  | APIException api_exception_class exn "string option" nat "table_pk option"

datatype 'a outcome = Raised exn | Returned 'a

fun returned :: "'a outcome \<Rightarrow> 'a option" where
  "returned (Returned x) = Some x"
| "returned (Raised x) = None"

definition HTTP_201_CREATED :: nat where "HTTP_201_CREATED = 201"
definition HTTP_400_BAD_REQUEST :: nat where "HTTP_400_BAD_REQUEST = 400"

section \<open>Requests\<close>

text \<open>
  A query parameter that is present either converts with Python's \<open>int(...)\<close> or makes it
  raise \<open>ValueError\<close>; a parameter that is absent makes the lookup raise \<open>KeyError\<close>.
  \<open>query_params\<close> is that reading of the query string, which only \<open>limit\<close> and \<open>offset\<close>
  get; \<open>GET\<close> is the reading of the same query string as JSON values, which the parameter
  serializer gets; \<open>data\<close> is the request body.
\<close>

datatype param = Unparsable | Parsed int

record request =
  query_params :: "string \<rightharpoonup> param"
  GET :: "string \<rightharpoonup> json"
  data :: json

record validated_data =
  vd_filter :: json
  vd_db_function :: json
  vd_deduplicate :: bool
  vd_order_by :: json
  vd_grouping :: json
  vd_duplicate_only :: json

section \<open>Grouping data\<close>

record group_by =
  columns :: "string list"
  mode :: string
  num_groups :: "int option"
  ranged :: bool

text \<open>The group annotation a record carries when the query was given a \<open>GroupBy\<close>.\<close>

record group_metadata =
  group_id :: nat
  group_count :: nat
  group_first_value :: row
  group_last_value :: row

record annotated_record =
  record_data :: row
  record_metadata :: "group_metadata option"

record group_result =
  g_count :: nat
  first_value :: row
  last_value :: row
  result_indices :: "nat list"

text \<open>The dictionary the grouping paginator stores in \<open>self.grouping\<close>.\<close>

record grouping_dict =
  gd_columns :: "string list"
  gd_mode :: string
  gd_num_groups :: "int option"
  gd_ranged :: bool
  gd_groups :: "group_result list option"

section \<open>Collaborators that are called but not defined in the two source files\<close>

text \<open>
  The table model. Its methods are the ones \<open>pagination.py\<close> and \<open>records.py\<close> call; what
  they compute is a parameter of the development. A method that can raise returns a sum.
\<close>

record table =
  table_id :: table_pk
  get_dj_column_id_to_name_mapping :: "(nat \<times> string) list"
  sa_num_records :: "json \<Rightarrow> json \<Rightarrow> bool \<Rightarrow> exn + int"
  get_records ::
    "int \<Rightarrow> int \<Rightarrow> json \<Rightarrow> json \<Rightarrow> group_by option \<Rightarrow> json \<Rightarrow> json \<Rightarrow> bool
      \<Rightarrow> exn + annotated_record list"
  create_record_or_records :: "json \<Rightarrow> exn + row"

record env =
  tables :: "table_pk \<rightharpoonup> table"
  rewrite_db_function_spec_column_ids_to_names :: "(nat \<times> string) list \<Rightarrow> json \<Rightarrow> exn + json"
  GroupBy :: "json \<Rightarrow> exn + group_by"
  process_annotated_records ::
    "annotated_record list \<Rightarrow> row list \<times> group_result list option"
  RecordListParameterSerializer :: "request \<Rightarrow> exn + validated_data"
  RecordSerializer :: "row \<Rightarrow> json"
  RecordSerializer_many :: "row list option \<Rightarrow> json"

text \<open>
  Calls to the collaborators are logged in the order they happen, so that a statement that
  a call is or is not made, and with which arguments, is a statement about the log.
\<close>

datatype event =
    GetTable table_pk
  | GetColumnMapping table_pk
  | RewriteSpec "(nat \<times> string) list" json
  | MakeGroupBy json
  | SaNumRecords table_pk json json bool
  | GetRecords table_pk int int json json "group_by option" json json bool
  | ProcessAnnotatedRecords "annotated_record list"
  | CreateRecord table_pk json

text \<open>
  Modelled from the spec: \<open>get_table_or_404\<close> of \<open>mathesar.api.utils\<close> is not among the
  source files. The spec (6) has the table descriptor looked up for the request; as the
  name says, the function returns the table with the given primary key or raises the
  not-found (404) error.
\<close>

definition get_table_or_404 :: "env \<Rightarrow> table_pk \<Rightarrow> event list \<Rightarrow> table outcome \<times> event list" where
  "get_table_or_404 e pk log =
     (case tables e pk of
        None \<Rightarrow> (Raised NotFound, log @ [GetTable pk])
      | Some t \<Rightarrow> (Returned t, log @ [GetTable pk]))"

section \<open>Limit and offset\<close>

text \<open>The class attributes of \<open>DefaultLimitOffsetPagination\<close> (lines 11 and 12).\<close>

definition default_limit :: int where "default_limit = 50"
definition max_limit :: int where "max_limit = 500"

text \<open>
  \<open>get_limit\<close>, \<open>get_offset\<close> and their helper \<open>_positive_int\<close> are inherited from the
  framework class \<open>LimitOffsetPagination\<close>, whose code is not among the source files. The
  spec (4.4) says: limit has default 50 and ceiling 500, offset has default 0 and floor 0,
  and out-of-range values clamp rather than error. The three definitions follow the
  framework's methods, which give these values.
\<close>

text \<open>
  Modelled from the spec: \<open>_positive_int\<close> (framework code, not among the source files)
  converts the parameter, rejects a negative value and, when \<open>strict\<close>, zero, and cuts the
  value off at \<open>cutoff\<close> when one is given. \<open>None\<close> stands for its \<open>ValueError\<close>.
\<close>

definition positive_int :: "param \<Rightarrow> bool \<Rightarrow> int option \<Rightarrow> int option" where
  "positive_int integer_string strict cutoff =
     (case integer_string of
        Unparsable \<Rightarrow> None
      | Parsed ret \<Rightarrow>
          if ret < 0 \<or> (ret = 0 \<and> strict) then None
          else (case cutoff of
                  None \<Rightarrow> Some ret
                | Some c \<Rightarrow> if c \<noteq> 0 then Some (min ret c) else Some ret))"

text \<open>
  Modelled from the spec: \<open>get_limit\<close> (framework code, not among the source files). A limit
  that is missing, unparsable or not positive is the default limit; a larger one is cut off
  at \<open>max_limit\<close> (spec 4.4: default 50, ceiling 500, no error).
\<close>

definition get_limit :: "request \<Rightarrow> int option" where
  "get_limit req =
     (case query_params req ''limit'' of
        None \<Rightarrow> Some default_limit
      | Some s \<Rightarrow>
          (case positive_int s True (Some max_limit) of
             None \<Rightarrow> Some default_limit
           | Some n \<Rightarrow> Some n))"

text \<open>
  Modelled from the spec: \<open>get_offset\<close> (framework code, not among the source files). An
  offset that is missing, unparsable or negative is 0 (spec 4.4: default 0, floor 0, no
  error).
\<close>

definition get_offset :: "request \<Rightarrow> int" where
  "get_offset req =
     (case query_params req ''offset'' of
        None \<Rightarrow> 0
      | Some s \<Rightarrow>
          (case positive_int s False None of
             None \<Rightarrow> 0
           | Some n \<Rightarrow> n))"

section \<open>pagination.py\<close>

record paginator =
  limit :: int
  offset :: int
  count :: int
  request :: request

record group_paginator = paginator +
  grouping :: "grouping_dict option"

text \<open>Lines 48 to 51: the limit and offset the paginator stores.\<close>

definition parse_limit :: "request \<Rightarrow> int" where
  "parse_limit req = (case get_limit req of None \<Rightarrow> default_limit | Some l \<Rightarrow> l)"

text \<open>\<open>TableLimitOffsetPagination.paginate_queryset\<close>.\<close>

definition paginate_queryset ::
  "env \<Rightarrow> request \<Rightarrow> table_pk \<Rightarrow> json \<Rightarrow> json \<Rightarrow> group_by option \<Rightarrow> json \<Rightarrow> json \<Rightarrow> bool
    \<Rightarrow> event list \<Rightarrow> (paginator \<times> annotated_record list) outcome \<times> event list" where
  "paginate_queryset e req tid fltr order_by gb duplicate_only db_function deduplicate log =
     (let lim = parse_limit req;
          off = get_offset req
      in case get_table_or_404 e tid log of
           (Raised x, log1) \<Rightarrow> (Raised x, log1)
         | (Returned t, log1) \<Rightarrow>
             (let log2 = log1 @ [SaNumRecords tid fltr db_function deduplicate]
              in case sa_num_records t fltr db_function deduplicate of
                   Inl x \<Rightarrow> (Raised x, log2)
                 | Inr c \<Rightarrow>
                     (let self = \<lparr>limit = lim, offset = off, count = c, request = req\<rparr>;
                          log3 = log2 @ [GetRecords tid lim off fltr order_by gb duplicate_only
                                           db_function deduplicate]
                      in case get_records t lim off fltr order_by gb duplicate_only
                                db_function deduplicate of
                           Inl x \<Rightarrow> (Raised x, log3)
                         | Inr records \<Rightarrow> (Returned (self, records), log3))))"

text \<open>\<open>TableLimitOffsetGroupPagination.paginate_queryset\<close>.\<close>

definition make_group_by :: "env \<Rightarrow> json \<Rightarrow> event list \<Rightarrow> group_by option outcome \<times> event list" where
  "make_group_by e grp log =
     (if truthy grp
      then (case GroupBy e grp of
              Inl x \<Rightarrow> (Raised x, log @ [MakeGroupBy grp])
            | Inr g \<Rightarrow> (Returned (Some g), log @ [MakeGroupBy grp]))
      else (Returned None, log))"

definition group_paginate_queryset ::
  "env \<Rightarrow> request \<Rightarrow> table_pk \<Rightarrow> json \<Rightarrow> json \<Rightarrow> json \<Rightarrow> json \<Rightarrow> json \<Rightarrow> bool
    \<Rightarrow> event list \<Rightarrow> (group_paginator \<times> row list option) outcome \<times> event list" where
  "group_paginate_queryset e req tid fltr order_by grp duplicate_only db_function deduplicate log =
     (case make_group_by e grp log of
        (Raised x, log1) \<Rightarrow> (Raised x, log1)
      | (Returned gb, log1) \<Rightarrow>
          (case paginate_queryset e req tid fltr order_by gb duplicate_only db_function
                  deduplicate log1 of
             (Raised x, log2) \<Rightarrow> (Raised x, log2)
           | (Returned (self, records), log2) \<Rightarrow>
               (let (pg, log3) =
                      (if records \<noteq> []
                       then (case process_annotated_records e records of
                               (processed_records, groups) \<Rightarrow>
                                 ((Some processed_records, groups),
                                  log2 @ [ProcessAnnotatedRecords records]))
                       else ((None, None), log2));
                    grouping' =
                      (case gb of
                         Some g \<Rightarrow>
                           Some \<lparr>gd_columns = columns g, gd_mode = mode g,
                                 gd_num_groups = num_groups g, gd_ranged = ranged g,
                                 gd_groups = snd pg\<rparr>
                       | None \<Rightarrow> None)
                in (Returned (paginator.extend self (group_paginator.fields grouping'), fst pg),
                    log3))))"

record response =
  resp_count :: int
  resp_grouping :: "grouping_dict option"
  resp_results :: json
  resp_status :: nat

definition get_paginated_response :: "group_paginator \<Rightarrow> json \<Rightarrow> response" where
  "get_paginated_response self dat =
     \<lparr>resp_count = count self, resp_grouping = grouping self, resp_results = dat,
      resp_status = 200\<rparr>"

section \<open>records.py\<close>

definition rewrite_db_function_specs ::
  "env \<Rightarrow> table_pk \<Rightarrow> json \<Rightarrow> json \<Rightarrow> event list \<Rightarrow> (json \<times> json) outcome \<times> event list" where
  "rewrite_db_function_specs e table_pk filter_unprocessed db_function_unprocessed log =
     (if truthy filter_unprocessed \<or> truthy db_function_unprocessed
      then (case get_table_or_404 e table_pk log of
              (Raised x, log1) \<Rightarrow> (Raised x, log1)
            | (Returned t, log1) \<Rightarrow>
                (let column_ids_to_names = get_dj_column_id_to_name_mapping t;
                     log2 = log1 @ [GetColumnMapping table_pk];
                     r1 = (if truthy filter_unprocessed
                           then (case rewrite_db_function_spec_column_ids_to_names e
                                        column_ids_to_names filter_unprocessed of
                                   Inl x \<Rightarrow> Raised x
                                 | Inr s \<Rightarrow> Returned s,
                                 log2 @ [RewriteSpec column_ids_to_names filter_unprocessed])
                           else (Returned JNull, log2))
                 in case r1 of
                      (Raised x, log3) \<Rightarrow> (Raised x, log3)
                    | (Returned filter_processed, log3) \<Rightarrow>
                        (if truthy db_function_unprocessed
                         then (case rewrite_db_function_spec_column_ids_to_names e
                                      column_ids_to_names db_function_unprocessed of
                                 Inl x \<Rightarrow> Raised x
                               | Inr s \<Rightarrow> Returned (filter_processed, s),
                               log3 @ [RewriteSpec column_ids_to_names db_function_unprocessed])
                         else (Returned (filter_processed, JNull), log3))))
      else (Returned (JNull, JNull), log))"

text \<open>The three \<open>except\<close> clauses of \<open>RecordViewSet.list\<close>, in the source's order.\<close>

definition list_handler :: "exn \<Rightarrow> exn" where
  "list_handler x =
     (if x = BadDBFunctionFormat \<or> x = UnknownDBFunctionID \<or> x = ReferencedColumnsDontExist
      then APIException BadFilterAPIException x (Some ''filters'') HTTP_400_BAD_REQUEST None
      else if x = BadSortFormat \<or> x = SortFieldNotFound
      then APIException BadSortAPIException x (Some ''order_by'') HTTP_400_BAD_REQUEST None
      else if x = BadGroupFormat \<or> x = GroupFieldNotFound \<or> x = InvalidGroupType
      then APIException BadGroupAPIException x (Some ''grouping'') HTTP_400_BAD_REQUEST None
      else x)"

definition list_records ::
  "env \<Rightarrow> request \<Rightarrow> table_pk \<Rightarrow> event list \<Rightarrow> response outcome \<times> event list" where
  "list_records e req table_pk log =
     (case RecordListParameterSerializer e req of
        Inl x \<Rightarrow> (Raised x, log)
      | Inr vd \<Rightarrow>
          (let filter_unprocessed = vd_filter vd;
               db_function_unprocessed = vd_db_function vd;
               body =
                 (case rewrite_db_function_specs e table_pk filter_unprocessed
                         db_function_unprocessed log of
                    (Raised x, log1) \<Rightarrow> (Raised x, log1)
                  | (Returned (filter_processed, db_function_processed), log1) \<Rightarrow>
                      group_paginate_queryset e req table_pk filter_processed (vd_order_by vd)
                        (vd_grouping vd) (vd_duplicate_only vd) db_function_processed
                        (vd_deduplicate vd) log1)
           in case body of
                (Raised x, log2) \<Rightarrow> (Raised (list_handler x), log2)
              | (Returned (self, records), log2) \<Rightarrow>
                  (Returned (get_paginated_response self (RecordSerializer_many e records)), log2)))"

fun is_dict :: "json \<Rightarrow> bool" where
  "is_dict (JObj kvs) = True"
| "is_dict _ = False"

definition create ::
  "env \<Rightarrow> request \<Rightarrow> table_pk \<Rightarrow> event list \<Rightarrow> (json \<times> nat) outcome \<times> event list" where
  "create e req table_pk log =
     (case get_table_or_404 e table_pk log of
        (Raised x, log1) \<Rightarrow> (Raised x, log1)
      | (Returned t, log1) \<Rightarrow>
          (if \<not> is_dict (data req) then (Raised AssertionError, log1)
           else (let log2 = log1 @ [CreateRecord table_pk (data req)]
                 in case create_record_or_records t (data req) of
                      Inl (IntegrityError orig) \<Rightarrow>
                        (if pg_class orig = NotNullViolation
                         then (Raised (APIException NotNullViolationAPIException
                                         (IntegrityError orig) None HTTP_400_BAD_REQUEST
                                         (Some (table_id t))), log2)
                         else (Raised (APIException MathesarAPIException
                                         (IntegrityError orig) None HTTP_400_BAD_REQUEST None),
                               log2))
                    | Inl x \<Rightarrow> (Raised x, log2)
                    | Inr rec \<Rightarrow> (Returned (RecordSerializer e rec, HTTP_201_CREATED), log2))))"

section \<open>The grouping engine\<close>

text \<open>
  The grouping code of \<open>db.records.operations.group\<close> and
  \<open>process_annotated_records\<close> of \<open>mathesar.api.utils\<close> are not among the source files.
  The spec (3, 4.3) describes distinct mode: a row's group depends only on its tuple of
  values on the grouped columns; groups are made in one pass with a tuple-to-group lookup,
  in the order each distinct tuple first appears; \<open>result_indices\<close> lists the page positions
  of the group, ascending. As in the source, where \<open>process_annotated_records(records)\<close> is
  given the records only and the \<open>GroupBy\<close> goes to \<open>get_records\<close>, the work is split in two:
  the query annotates every row with the metadata of its group (\<open>annotate_distinct\<close>), and
  \<open>process_annotated_records_spec\<close> collects the groups of a page from the annotations.
  The \<open>count\<close> of a group is the one the query computed, over the rows it grouped: the
  expected responses of \<open>test_record_list_groups\<close> list a group with count 87 and the
  single page position 0, and groups with counts 138, 159 and 197 on a page of 100 rows.
\<close>

text \<open>
  Modelled from the spec: the tuple of values of a row on the grouped columns (3, 4.3), on
  which alone group membership depends in distinct mode.
\<close>

definition group_key :: "string list \<Rightarrow> row \<Rightarrow> json option list" where
  "group_key cols r = map (map_of r) cols"

text \<open>
  Modelled from the spec: the mapping from column name to value that a group reports as
  its first and last value (3).
\<close>

definition group_value :: "string list \<Rightarrow> row \<Rightarrow> row" where
  "group_value cols r =
     map (\<lambda>c. (c, case map_of r c of None \<Rightarrow> JNull | Some v \<Rightarrow> v)) cols"

text \<open>
  Modelled from the spec: the tuple-to-group lookup (4.3); a tuple's group is numbered by
  the position at which the tuple first occurs.
\<close>

fun first_index :: "'a \<Rightarrow> 'a list \<Rightarrow> nat" where
  "first_index x [] = 0"
| "first_index x (y # ys) = (if x = y then 0 else Suc (first_index x ys))"

text \<open>
  Modelled from the spec: the distinct-mode grouping of the query (4.3), which is not among
  the source files. Every row is annotated with the metadata of its group: the group of
  its tuple, the number of rows of the grouped set with that tuple, and the tuple as first
  and last value.
\<close>

definition annotate_distinct :: "string list \<Rightarrow> row list \<Rightarrow> annotated_record list" where
  "annotate_distinct cols rs =
     (let keys = map (group_key cols) rs
      in map (\<lambda>r. \<lparr>record_data = r,
                    record_metadata =
                      Some \<lparr>group_id = first_index (group_key cols r) keys,
                            group_count = count_list keys (group_key cols r),
                            group_first_value = group_value cols r,
                            group_last_value = group_value cols r\<rparr>\<rparr>) rs)"

text \<open>
  Modelled from the spec: one step of the single pass (4.3). Position \<open>i\<close> is appended to
  the \<open>result_indices\<close> of the group the record is annotated with; a group not met before
  is added after the groups met so far.
\<close>

fun add_to_groups ::
  "nat \<Rightarrow> group_metadata \<Rightarrow> (nat \<times> group_result) list \<Rightarrow> (nat \<times> group_result) list" where
  "add_to_groups i m [] =
     [(group_id m, \<lparr>g_count = group_count m, first_value = group_first_value m,
                    last_value = group_last_value m, result_indices = [i]\<rparr>)]"
| "add_to_groups i m ((gid, g) # rest) =
     (if gid = group_id m
      then (gid, g\<lparr>result_indices := result_indices g @ [i]\<rparr>) # rest
      else (gid, g) # add_to_groups i m rest)"

text \<open>
  Modelled from the spec: the single pass over the records of the page, in page order,
  from position \<open>i\<close> on (4.3).
\<close>

fun collect_groups ::
  "nat \<Rightarrow> annotated_record list \<Rightarrow> (nat \<times> group_result) list \<Rightarrow> (nat \<times> group_result) list" where
  "collect_groups i [] acc = acc"
| "collect_groups i (r # rs) acc =
     collect_groups (Suc i) rs
       (case record_metadata r of None \<Rightarrow> acc | Some m \<Rightarrow> add_to_groups i m acc)"

text \<open>
  Modelled from the spec: \<open>process_annotated_records\<close> of \<open>mathesar.api.utils\<close>, which is not
  among the source files. It is called with the records of the window and returns the
  records without their annotations and the groups of the page (4.3: rows unchanged, groups
  in the order of first appearance), or no groups when no record is annotated.
\<close>

definition process_annotated_records_spec ::
  "annotated_record list \<Rightarrow> row list \<times> group_result list option" where
  "process_annotated_records_spec record_list =
     (let processed_records = map record_data record_list;
          groups = (if list_ex (\<lambda>r. record_metadata r \<noteq> None) record_list
                    then Some (map snd (collect_groups 0 record_list []))
                    else None)
      in (processed_records, groups))"

text \<open>
  Modelled from the spec: a sequence of column names as it arrives in a request (6); any
  other content makes the specification structurally invalid.
\<close>

fun json_strings :: "json list \<Rightarrow> string list option" where
  "json_strings [] = Some []"
| "json_strings (JStr s # xs) = map_option ((#) s) (json_strings xs)"
| "json_strings (_ # xs) = None"

text \<open>
  Modelled from the spec: the constructor of \<open>GroupBy\<close> is not among the source files.
  The spec (3, 4.3): \<open>columns\<close> is a non-empty sequence of column references, \<open>mode\<close> is
  distinct or percentile, \<open>num_groups\<close> is a positive integer present only in percentile
  mode (default 5), \<open>ranged\<close> is true for percentile mode and false for distinct mode, and a
  structurally invalid specification is a \<open>BadGroupFormat\<close> error.
\<close>

definition GroupBy_spec :: "json \<Rightarrow> exn + group_by" where
  "GroupBy_spec grp =
     (case grp of
        JObj kvs \<Rightarrow>
          (case map_of kvs ''columns'' of
             Some (JArr cs) \<Rightarrow>
               (case json_strings cs of
                  None \<Rightarrow> Inl BadGroupFormat
                | Some cols \<Rightarrow>
                    if cols = [] then Inl BadGroupFormat
                    else (case map_of kvs ''mode'' of
                            None \<Rightarrow>
                              Inr \<lparr>columns = cols, mode = ''distinct'', num_groups = None,
                                   ranged = False\<rparr>
                          | Some (JStr m) \<Rightarrow>
                              if m = ''distinct''
                              then Inr \<lparr>columns = cols, mode = m, num_groups = None,
                                        ranged = False\<rparr>
                              else if m = ''percentile''
                              then (case map_of kvs ''num_groups'' of
                                      None \<Rightarrow>
                                        Inr \<lparr>columns = cols, mode = m, num_groups = Some 5,
                                             ranged = True\<rparr>
                                    | Some (JNum n) \<Rightarrow>
                                        if 0 < n
                                        then Inr \<lparr>columns = cols, mode = m,
                                                  num_groups = Some n, ranged = True\<rparr>
                                        else Inl BadGroupFormat
                                    | Some _ \<Rightarrow> Inl BadGroupFormat)
                              else Inl BadGroupFormat
                          | Some _ \<Rightarrow> Inl BadGroupFormat))
           | _ \<Rightarrow> Inl BadGroupFormat)
      | _ \<Rightarrow> Inl BadGroupFormat)"

section \<open>The query compiler behind the table model\<close>

text \<open>
  \<open>Table.sa_num_records\<close> and \<open>Table.get_records\<close> (and the query code under
  \<open>db.records\<close> they call) are not among the source files. The spec (4.2):
  operators, referenced columns and sort fields are validated first; the query filters,
  applies the function, collapses rows that are identical across all columns when
  \<open>deduplicate\<close> is true, restricts to rows whose tuple on the \<open>duplicate_only\<close> columns is
  not unique in the result set when such columns are supplied, orders, and applies limit
  and offset last; the count query reflects filter, function and deduplicate but not the
  window. What a filter or function specification means, how rows are ordered and how
  percentile groups are formed are parameters (\<open>backend\<close>).
\<close>

text \<open>
  Modelled from the spec: the stored rows of a table and the parts of the query compiler
  the spec leaves to the expression language, the sort directives and the percentile
  algorithm (4.1 to 4.3), as parameters.
\<close>

record backend =
  stored_rows :: "row list"
  column_ids_to_names :: "(nat \<times> string) list"
  check_db_function :: "json \<Rightarrow> exn option"
  check_order_by :: "json \<Rightarrow> exn option"
  check_group_by :: "group_by \<Rightarrow> exn option"
  eval_filter :: "json \<Rightarrow> row \<Rightarrow> bool"
  eval_db_function :: "json \<Rightarrow> row \<Rightarrow> row"
  sort_rows :: "json \<Rightarrow> row list \<Rightarrow> row list"
  annotate_percentile :: "group_by \<Rightarrow> row list \<Rightarrow> annotated_record list"
  insert_row :: "json \<Rightarrow> exn + row"

text \<open>
  Modelled from the spec: the rows that satisfy filter, function and deduplicate, with no
  window applied (4.2).
\<close>

definition result_set :: "backend \<Rightarrow> json \<Rightarrow> json \<Rightarrow> bool \<Rightarrow> row list" where
  "result_set b fltr db_function deduplicate =
     (let filtered = (if fltr = JNull then stored_rows b
                      else filter (eval_filter b fltr) (stored_rows b));
          transformed = (if db_function = JNull then filtered
                         else map (eval_db_function b db_function) filtered)
      in if deduplicate then remdups transformed else transformed)"

text \<open>Modelled from the spec: the column names of a \<open>duplicate_only\<close> parameter (4.2, 6).\<close>

definition duplicate_only_columns :: "json \<Rightarrow> string list" where
  "duplicate_only_columns d =
     (case d of JArr cs \<Rightarrow> (case json_strings cs of None \<Rightarrow> [] | Some cols \<Rightarrow> cols) | _ \<Rightarrow> [])"

text \<open>
  Modelled from the spec: when \<open>duplicate_only\<close> is supplied, only the rows whose tuple on
  those columns is not unique in the result set remain (4.2).
\<close>

definition duplicates_only :: "json \<Rightarrow> row list \<Rightarrow> row list" where
  "duplicates_only d rs =
     (if truthy d
      then (let cols = duplicate_only_columns d;
                keys = map (group_key cols) rs
            in filter (\<lambda>r. 1 < count_list keys (group_key cols r)) rs)
      else rs)"

text \<open>
  Modelled from the spec: the group annotation of the query, by the mode of the
  \<open>GroupBy\<close> (4.3); rows of a query without grouping carry no annotation.
\<close>

definition annotate :: "backend \<Rightarrow> group_by option \<Rightarrow> row list \<Rightarrow> annotated_record list" where
  "annotate b gb rs =
     (case gb of
        None \<Rightarrow> map (\<lambda>r. \<lparr>record_data = r, record_metadata = None\<rparr>) rs
      | Some g \<Rightarrow>
          if mode g = ''distinct'' then annotate_distinct (columns g) rs
          else annotate_percentile b g rs)"

text \<open>Modelled from the spec: limit and offset, applied last (4.2).\<close>

definition window :: "int \<Rightarrow> int \<Rightarrow> 'a list \<Rightarrow> 'a list" where
  "window lim off xs = take (nat lim) (drop (nat off) xs)"

text \<open>
  Modelled from the spec: the validation of the filter and of the function specification
  that precedes every query (4.2, 7).
\<close>

definition check_specs :: "backend \<Rightarrow> json \<Rightarrow> json \<Rightarrow> exn option" where
  "check_specs b fltr db_function =
     (case (if fltr = JNull then None else check_db_function b fltr) of
        Some x \<Rightarrow> Some x
      | None \<Rightarrow> (if db_function = JNull then None else check_db_function b db_function))"

text \<open>
  Modelled from the spec: \<open>Table.sa_num_records\<close>, the count query, which reflects filter,
  function and deduplicate but not the window (4.2).
\<close>

definition spec_sa_num_records :: "backend \<Rightarrow> json \<Rightarrow> json \<Rightarrow> bool \<Rightarrow> exn + int" where
  "spec_sa_num_records b fltr db_function deduplicate =
     (case check_specs b fltr db_function of
        Some x \<Rightarrow> Inl x
      | None \<Rightarrow> Inr (int (length (result_set b fltr db_function deduplicate))))"

text \<open>
  Modelled from the spec: the rows a record query would return with no window: the result
  set, restricted to duplicates when asked, ordered and annotated (4.2, 4.3).
\<close>

definition full_records ::
  "backend \<Rightarrow> json \<Rightarrow> json \<Rightarrow> group_by option \<Rightarrow> json \<Rightarrow> json \<Rightarrow> bool
    \<Rightarrow> annotated_record list" where
  "full_records b fltr order_by gb duplicate_only db_function deduplicate =
     annotate b gb
       (sort_rows b order_by
          (duplicates_only duplicate_only (result_set b fltr db_function deduplicate)))"

text \<open>
  Modelled from the spec: \<open>Table.get_records\<close>, the record query: validation, then the
  window of the rows (4.2).
\<close>

definition spec_get_records ::
  "backend \<Rightarrow> int \<Rightarrow> int \<Rightarrow> json \<Rightarrow> json \<Rightarrow> group_by option \<Rightarrow> json \<Rightarrow> json \<Rightarrow> bool
    \<Rightarrow> exn + annotated_record list" where
  "spec_get_records b lim off fltr order_by gb duplicate_only db_function deduplicate =
     (case check_specs b fltr db_function of
        Some x \<Rightarrow> Inl x
      | None \<Rightarrow>
          (case check_order_by b order_by of
             Some x \<Rightarrow> Inl x
           | None \<Rightarrow>
               (case (case gb of None \<Rightarrow> None | Some g \<Rightarrow> check_group_by b g) of
                  Some x \<Rightarrow> Inl x
                | None \<Rightarrow>
                    Inr (window lim off
                           (full_records b fltr order_by gb duplicate_only db_function
                              deduplicate)))))"

text \<open>
  Modelled from the spec: the table descriptor (6) over a backend, with the methods the
  source calls.
\<close>

definition spec_table :: "backend \<Rightarrow> table_pk \<Rightarrow> table" where
  "spec_table b pk =
     \<lparr>table_id = pk,
      get_dj_column_id_to_name_mapping = column_ids_to_names b,
      sa_num_records = spec_sa_num_records b,
      get_records = spec_get_records b,
      create_record_or_records = insert_row b\<rparr>"

section \<open>A small table for concrete runs\<close>

text \<open>
  Three rows in the manner of the test fixture: \<open>Center\<close> is Kennedy, Ames, Ames (the
  scenario of the spec, section 8). A filter or function specification is accepted when its
  operator is \<open>equal\<close>, \<open>empty\<close> or \<open>identity\<close>; the not-null column is \<open>Case Number\<close>, as in
  \<open>test_null_error_record_create\<close>.
\<close>

definition nasa_rows :: "row list" where
  "nasa_rows =
     [[(''id'', JNum 1), (''Center'', JStr ''Kennedy'')],
      [(''id'', JNum 2), (''Center'', JStr ''Ames'')],
      [(''id'', JNum 3), (''Center'', JStr ''Ames'')]]"

definition nasa_check :: "json \<Rightarrow> exn option" where
  "nasa_check s =
     (case s of
        JObj [(op, JArr args)] \<Rightarrow>
          if op = ''equal'' \<or> op = ''empty'' \<or> op = ''identity'' then None
          else Some UnknownDBFunctionID
      | _ \<Rightarrow> Some BadDBFunctionFormat)"

definition nasa_eval_filter :: "json \<Rightarrow> row \<Rightarrow> bool" where
  "nasa_eval_filter s r =
     (case s of
        JObj [(op, JArr [JStr c, v])] \<Rightarrow> (if op = ''equal'' then map_of r c = Some v else True)
      | _ \<Rightarrow> True)"

definition nasa_insert :: "json \<Rightarrow> exn + row" where
  "nasa_insert d =
     (case d of
        JObj kvs \<Rightarrow>
          if map_of kvs ''Case Number'' = Some JNull
          then Inl (IntegrityError
                      \<lparr>pg_class = NotNullViolation,
                       pg_message = ''null value in column Case Number'',
                       pg_column = Some ''Case Number''\<rparr>)
          else if map_of kvs ''id'' = Some (JNum 1)
          then Inl (IntegrityError
                      \<lparr>pg_class = UniqueViolation,
                       pg_message = ''duplicate key value'',
                       pg_column = None\<rparr>)
          else Inr kvs
      | _ \<Rightarrow> Inl (OtherError ''not a record''))"

definition nasa :: backend where
  "nasa =
     \<lparr>stored_rows = nasa_rows,
      column_ids_to_names = [(1, ''id''), (2, ''Center'')],
      check_db_function = nasa_check,
      check_order_by = (\<lambda>_. None),
      check_group_by = (\<lambda>_. None),
      eval_filter = nasa_eval_filter,
      eval_db_function = (\<lambda>_ r. r),
      sort_rows = (\<lambda>_ rs. rs),
      annotate_percentile = (\<lambda>_ rs. map (\<lambda>r. \<lparr>record_data = r, record_metadata = None\<rparr>) rs),
      insert_row = nasa_insert\<rparr>"

text \<open>
  The parameter serializer of the concrete runs gives each parameter that is absent the
  default of the keyword parameter of \<open>paginate_queryset\<close> it is passed to.
\<close>

definition get_or :: "request \<Rightarrow> string \<Rightarrow> json \<Rightarrow> json" where
  "get_or req k dflt = (case GET req k of None \<Rightarrow> dflt | Some v \<Rightarrow> v)"

definition nasa_serializer :: "request \<Rightarrow> exn + validated_data" where
  "nasa_serializer req =
     Inr \<lparr>vd_filter = get_or req ''filter'' JNull,
          vd_db_function = get_or req ''db_function'' JNull,
          vd_deduplicate = (get_or req ''deduplicate'' (JBool False) = JBool True),
          vd_order_by = get_or req ''order_by'' (JArr []),
          vd_grouping = get_or req ''grouping'' (JObj []),
          vd_duplicate_only = get_or req ''duplicate_only'' JNull\<rparr>"

definition nasa_env :: env where
  "nasa_env =
     \<lparr>tables = [1 \<mapsto> spec_table nasa 1],
      rewrite_db_function_spec_column_ids_to_names = (\<lambda>m s. Inr s),
      GroupBy = GroupBy_spec,
      process_annotated_records = process_annotated_records_spec,
      RecordListParameterSerializer = nasa_serializer,
      RecordSerializer = JObj,
      RecordSerializer_many =
        (\<lambda>rs. case rs of None \<Rightarrow> JArr [] | Some xs \<Rightarrow> JArr (map JObj xs))\<rparr>"

definition plain_request :: request where
  "plain_request = \<lparr>query_params = Map.empty, GET = Map.empty, data = JNull\<rparr>"

definition grouping_by_center :: json where
  "grouping_by_center = JObj [(''columns'', JArr [JStr ''Center''])]"

definition far_request :: request where
  "far_request = plain_request\<lparr>query_params := [''offset'' \<mapsto> Parsed 10]\<rparr>"

definition short_request :: request where
  "short_request = plain_request\<lparr>query_params := [''limit'' \<mapsto> Parsed 2]\<rparr>"

definition wild_request :: request where
  "wild_request =
     plain_request\<lparr>query_params := [''limit'' \<mapsto> Parsed 1000, ''offset'' \<mapsto> Parsed (- 3)]\<rparr>"

definition center_group_by :: group_by where
  "center_group_by =
     \<lparr>columns = [''Center''], mode = ''distinct'', num_groups = None, ranged = False\<rparr>"

definition bogus_request :: request where
  "bogus_request = plain_request\<lparr>GET := [''filter'' \<mapsto> JObj [(''bogus_op'', JArr [])]]\<rparr>"

definition null_case_number_request :: request where
  "null_case_number_request =
     plain_request\<lparr>data := JObj [(''Center'', JStr ''Example''), (''Case Number'', JNull)]\<rparr>"

definition duplicate_id_request :: request where
  "duplicate_id_request =
     plain_request\<lparr>data := JObj [(''id'', JNum 1), (''Case Number'', JStr ''KSC-1'')]\<rparr>"

definition center_is_ames :: json where
  "center_is_ames = JObj [(''equal'', JArr [JStr ''Center'', JStr ''Ames''])]"

definition identity_of_center :: json where
  "identity_of_center = JObj [(''identity'', JArr [JStr ''Center''])]"

section \<open>Auxiliary notions for the grouping proofs\<close>

text \<open>The positions collected so far for a group id, and the group id a record carries.\<close>

definition indices_of :: "(nat \<times> group_result) list \<Rightarrow> nat \<Rightarrow> nat list" where
  "indices_of acc gid = (case map_of acc gid of None \<Rightarrow> [] | Some g \<Rightarrow> result_indices g)"

definition gid_at :: "annotated_record \<Rightarrow> nat option" where
  "gid_at r = map_option group_id (record_metadata r)"

definition positions_of :: "nat \<Rightarrow> annotated_record list \<Rightarrow> nat \<Rightarrow> nat list" where
  "positions_of i rs gid = map fst (filter (\<lambda>p. gid_at (snd p) = Some gid) (enumerate i rs))"

text \<open>
  The invariant of the single pass: every group made so far has positions, all below the
  next position \<open>i\<close>, and the groups stand in the order of their first positions.
\<close>

definition first_position :: "nat \<times> group_result \<Rightarrow> nat" where
  "first_position p = hd (result_indices (snd p))"

definition groups_in_order :: "nat \<Rightarrow> (nat \<times> group_result) list \<Rightarrow> bool" where
  "groups_in_order i acc \<longleftrightarrow>
     list_all (\<lambda>p. result_indices (snd p) \<noteq> [] \<and> list_all (\<lambda>j. j < i) (result_indices (snd p))) acc \<and>
     sorted_wrt (<) (map first_position acc)"

section \<open>How the paginators and views return\<close>

lemma get_limit_Some: "\<exists>l. get_limit req = Some l"
  by (simp add: get_limit_def split: option.splits)

lemma parse_limit_cases:
  "parse_limit req =
     (case query_params req ''limit'' of
        None \<Rightarrow> 50
      | Some Unparsable \<Rightarrow> 50
      | Some (Parsed n) \<Rightarrow> if n \<le> 0 then 50 else min n 500)"
  by (simp add: parse_limit_def get_limit_def positive_int_def default_limit_def max_limit_def
      split: option.splits param.splits)

lemma get_offset_cases:
  "get_offset req =
     (case query_params req ''offset'' of
        None \<Rightarrow> 0
      | Some Unparsable \<Rightarrow> 0
      | Some (Parsed n) \<Rightarrow> max 0 n)"
  by (simp add: get_offset_def positive_int_def split: option.splits param.splits)

lemma paginate_queryset_Returned:
  assumes "paginate_queryset e req tid f ob gb dup d dd log = (Returned (self, records), log')"
  shows "\<exists>t. tables e tid = Some t \<and> sa_num_records t f d dd = Inr (count self) \<and>
             get_records t (parse_limit req) (get_offset req) f ob gb dup d dd = Inr records \<and>
             limit self = parse_limit req \<and> offset self = get_offset req \<and> request self = req \<and>
             log' = log @ [GetTable tid, SaNumRecords tid f d dd,
                           GetRecords tid (parse_limit req) (get_offset req) f ob gb dup d dd]"
  using assms
  by (auto simp: paginate_queryset_def get_table_or_404_def Let_def
      split: option.splits sum.splits)

lemma paginate_queryset_Raised:
  assumes "paginate_queryset e req tid f ob gb dup d dd log = (Raised x, log')"
  shows "(tables e tid = None \<and> x = NotFound) \<or>
         (\<exists>t. tables e tid = Some t \<and>
              (sa_num_records t f d dd = Inl x \<or>
               get_records t (parse_limit req) (get_offset req) f ob gb dup d dd = Inl x))"
  using assms
  by (auto simp: paginate_queryset_def get_table_or_404_def Let_def
      split: option.splits sum.splits)

lemma make_group_by_Returned:
  assumes "make_group_by e grp log = (Returned gb, log1)"
  shows "(gb = None \<longleftrightarrow> \<not> truthy grp) \<and>
         (\<forall>g. gb = Some g \<longrightarrow> GroupBy e grp = Inr g) \<and>
         log1 = log @ (if truthy grp then [MakeGroupBy grp] else [])"
  using assms by (auto simp: make_group_by_def split: if_splits sum.splits)

lemma group_paginate_queryset_Returned:
  assumes "group_paginate_queryset e req tid f ob grp dup d dd log = (Returned (self, out), log')"
  shows "\<exists>gb log1 t records.
           make_group_by e grp log = (Returned gb, log1) \<and> tables e tid = Some t \<and>
           sa_num_records t f d dd = Inr (count self) \<and>
           get_records t (parse_limit req) (get_offset req) f ob gb dup d dd = Inr records \<and>
           limit self = parse_limit req \<and> offset self = get_offset req \<and>
           grouping self =
             (case gb of
                None \<Rightarrow> None
              | Some g \<Rightarrow>
                  Some \<lparr>gd_columns = columns g, gd_mode = mode g, gd_num_groups = num_groups g,
                        gd_ranged = ranged g,
                        gd_groups = (if records \<noteq> []
                                     then snd (process_annotated_records e records)
                                     else None)\<rparr>) \<and>
           out = (if records \<noteq> [] then Some (fst (process_annotated_records e records))
                  else None) \<and>
           log' = log1 @ [GetTable tid, SaNumRecords tid f d dd,
                          GetRecords tid (parse_limit req) (get_offset req) f ob gb dup d dd]
                    @ (if records \<noteq> [] then [ProcessAnnotatedRecords records] else [])"
proof -
  from assms obtain gb log1 where mg: "make_group_by e grp log = (Returned gb, log1)"
    by (auto simp: group_paginate_queryset_def split: prod.splits outcome.splits)
  from assms mg obtain p records log2 where
    pq: "paginate_queryset e req tid f ob gb dup d dd log1 = (Returned (p, records), log2)"
    by (auto simp: group_paginate_queryset_def split: prod.splits outcome.splits)
  from paginate_queryset_Returned [OF pq] obtain t where
    t: "tables e tid = Some t" "sa_num_records t f d dd = Inr (count p)"
       "get_records t (parse_limit req) (get_offset req) f ob gb dup d dd = Inr records"
       "limit p = parse_limit req" "offset p = get_offset req"
       "log2 = log1 @ [GetTable tid, SaNumRecords tid f d dd,
                           GetRecords tid (parse_limit req) (get_offset req) f ob gb dup d dd]"
    by blast
  from assms mg pq have
    "self = paginator.extend p (group_paginator.fields
        (case gb of
                None \<Rightarrow> None
              | Some g \<Rightarrow>
                  Some \<lparr>gd_columns = columns g, gd_mode = mode g, gd_num_groups = num_groups g,
                        gd_ranged = ranged g,
                        gd_groups = (if records \<noteq> []
                                     then snd (process_annotated_records e records)
                                     else None)\<rparr>))"
    "out = (if records \<noteq> [] then Some (fst (process_annotated_records e records)) else None)"
    "log' = log2 @ (if records \<noteq> [] then [ProcessAnnotatedRecords records] else [])"
    by (auto simp: group_paginate_queryset_def Let_def split: prod.splits option.splits)
  with mg t show ?thesis
    by (simp add: paginator.defs group_paginator.defs)
qed


lemmas request_defs =
  far_request_def short_request_def wild_request_def plain_request_def bogus_request_def
  null_case_number_request_def duplicate_id_request_def

lemmas nasa_defs =
  nasa_env_def nasa_def nasa_rows_def nasa_check_def nasa_eval_filter_def nasa_insert_def
  nasa_serializer_def get_or_def grouping_by_center_def center_group_by_def
  spec_table_def spec_sa_num_records_def spec_get_records_def check_specs_def
  full_records_def result_set_def duplicates_only_def duplicate_only_columns_def
  annotate_def annotate_distinct_def window_def group_key_def group_value_def
  GroupBy_spec_def process_annotated_records_spec_def

lemmas paginate_defs =
  group_paginate_queryset_def make_group_by_def paginate_queryset_def get_table_or_404_def
  parse_limit_cases get_offset_cases

lemma far_run:
  "group_paginate_queryset nasa_env far_request 1 JNull (JArr []) grouping_by_center JNull JNull
     False [] =
   (Returned
      (\<lparr>limit = 50, offset = 10, count = 3, request = far_request,
        grouping = Some \<lparr>gd_columns = [''Center''], gd_mode = ''distinct'',
                          gd_num_groups = None, gd_ranged = False, gd_groups = None\<rparr>\<rparr>,
       None),
    [MakeGroupBy grouping_by_center, GetTable 1, SaNumRecords 1 JNull JNull False,
     GetRecords 1 50 10 JNull (JArr []) (Some center_group_by) JNull JNull False])"
  by (simp add: paginate_defs nasa_defs request_defs paginator.defs group_paginator.defs)

lemma short_run:
  "group_paginate_queryset nasa_env short_request 1 JNull (JArr []) grouping_by_center JNull JNull
     False [] =
   (Returned
      (\<lparr>limit = 2, offset = 0, count = 3, request = short_request,
        grouping =
          Some \<lparr>gd_columns = [''Center''], gd_mode = ''distinct'', gd_num_groups = None,
                gd_ranged = False,
                gd_groups =
                  Some [\<lparr>g_count = 1, first_value = [(''Center'', JStr ''Kennedy'')],
                          last_value = [(''Center'', JStr ''Kennedy'')], result_indices = [0]\<rparr>,
                        \<lparr>g_count = 2, first_value = [(''Center'', JStr ''Ames'')],
                          last_value = [(''Center'', JStr ''Ames'')], result_indices = [1]\<rparr>]\<rparr>\<rparr>,
       Some [[(''id'', JNum 1), (''Center'', JStr ''Kennedy'')],
             [(''id'', JNum 2), (''Center'', JStr ''Ames'')]]),
    [MakeGroupBy grouping_by_center, GetTable 1, SaNumRecords 1 JNull JNull False,
     GetRecords 1 2 0 JNull (JArr []) (Some center_group_by) JNull JNull False,
     ProcessAnnotatedRecords
       (window 2 0 (annotate_distinct [''Center''] nasa_rows))])"
  by (simp add: paginate_defs nasa_defs request_defs paginator.defs group_paginator.defs)


lemma wild_run:
  "paginate_queryset nasa_env wild_request 1 JNull (JArr []) None JNull JNull False [] =
   (Returned
      (\<lparr>limit = 500, offset = 0, count = 3, request = wild_request\<rparr>,
       annotate nasa None nasa_rows),
    [GetTable 1, SaNumRecords 1 JNull JNull False,
     GetRecords 1 500 0 JNull (JArr []) None JNull JNull False])"
  by (simp add: paginate_defs nasa_defs request_defs)


lemma spec_sa_num_records_Inr:
  "spec_sa_num_records b f d dd = Inr c \<Longrightarrow> c = int (length (result_set b f d dd))"
  by (simp add: spec_sa_num_records_def split: option.splits)

lemma spec_get_records_Inr:
  "spec_get_records b lim off f ob gb dup d dd = Inr rs \<Longrightarrow>
   rs = window lim off (full_records b f ob gb dup d dd)"
  by (simp add: spec_get_records_def split: option.splits)

lemma unique_ids_run:
  "paginate_queryset nasa_env plain_request 1 JNull (JArr []) None (JArr [JStr ''id'']) JNull
     False [] =
   (Returned (\<lparr>limit = 50, offset = 0, count = 3, request = plain_request\<rparr>, []),
    [GetTable 1, SaNumRecords 1 JNull JNull False,
     GetRecords 1 50 0 JNull (JArr []) None (JArr [JStr ''id'']) JNull False])"
  by (simp add: paginate_defs nasa_defs request_defs)

lemma all_rows_run:
  "paginate_queryset nasa_env plain_request 1 JNull (JArr []) None JNull JNull False [] =
   (Returned (\<lparr>limit = 50, offset = 0, count = 3, request = plain_request\<rparr>,
              annotate nasa None nasa_rows),
    [GetTable 1, SaNumRecords 1 JNull JNull False,
     GetRecords 1 50 0 JNull (JArr []) None JNull JNull False])"
  by (simp add: paginate_defs nasa_defs request_defs)

lemma list_handler_filter_family:
  "x = BadDBFunctionFormat \<or> x = UnknownDBFunctionID \<or> x = ReferencedColumnsDontExist \<Longrightarrow>
   list_handler x = APIException BadFilterAPIException x (Some ''filters'') 400 None"
  by (auto simp: list_handler_def HTTP_400_BAD_REQUEST_def)

lemma list_handler_sort_family:
  "x = BadSortFormat \<or> x = SortFieldNotFound \<Longrightarrow>
   list_handler x = APIException BadSortAPIException x (Some ''order_by'') 400 None"
  by (auto simp: list_handler_def HTTP_400_BAD_REQUEST_def)

lemma list_handler_group_family:
  "x = BadGroupFormat \<or> x = GroupFieldNotFound \<or> x = InvalidGroupType \<Longrightarrow>
   list_handler x = APIException BadGroupAPIException x (Some ''grouping'') 400 None"
  by (auto simp: list_handler_def HTTP_400_BAD_REQUEST_def)

section \<open>The single pass that collects the groups of a page\<close>

lemma indices_of_add_to_groups:
  "indices_of (add_to_groups i m acc) gid =
     indices_of acc gid @ (if gid = group_id m then [i] else [])"
  by (induction acc) (auto simp: indices_of_def)

lemma keys_add_to_groups:
  "fst ` set (add_to_groups i m acc) = insert (group_id m) (fst ` set acc)"
proof (induction acc)
  case Nil
  show ?case by simp
next
  case (Cons a acc)
  obtain gid g where a: "a = (gid, g)" by (cases a)
  show ?case
  proof (cases "gid = group_id m")
    case True
    with a show ?thesis by auto
  next
    case False
    with a Cons show ?thesis by auto
  qed
qed

lemma distinct_add_to_groups:
  "distinct (map fst acc) \<Longrightarrow> distinct (map fst (add_to_groups i m acc))"
proof (induction acc)
  case Nil
  then show ?case by simp
next
  case (Cons a acc)
  obtain gid g where a: "a = (gid, g)" by (cases a)
  show ?case
  proof (cases "gid = group_id m")
    case True
    with Cons a show ?thesis by simp
  next
    case False
    have "gid \<notin> set (map fst (add_to_groups i m acc))"
      using Cons.prems a False by (auto simp: keys_add_to_groups)
    with Cons a False show ?thesis by simp
  qed
qed

lemma indices_of_collect_groups:
  "indices_of (collect_groups i rs acc) gid = indices_of acc gid @ positions_of i rs gid"
proof (induction rs arbitrary: i acc)
  case Nil
  then show ?case by (simp add: positions_of_def)
next
  case (Cons r rs)
  show ?case
  proof (cases "record_metadata r")
    case None
    with Cons show ?thesis by (simp add: positions_of_def gid_at_def)
  next
    case (Some m)
    with Cons show ?thesis
      by (auto simp: positions_of_def gid_at_def indices_of_add_to_groups)
  qed
qed

lemma distinct_collect_groups:
  "distinct (map fst acc) \<Longrightarrow> distinct (map fst (collect_groups i rs acc))"
  by (induction rs arbitrary: i acc) (auto simp: distinct_add_to_groups split: option.splits)

lemma set_positions_of:
  "set (positions_of i rs gid) = {j. i \<le> j \<and> j < i + length rs \<and> gid_at (rs ! (j - i)) = Some gid}"
  by (auto simp: positions_of_def in_set_enumerate_eq image_iff)

lemma sorted_positions_of: "sorted_wrt (<) (positions_of i rs gid)"
proof -
  have "sorted_wrt (\<lambda>p q. fst p < fst q) (enumerate i rs) =
          sorted_wrt (<) (map fst (enumerate i rs))"
    by (rule sorted_wrt_map [symmetric])
  then have "sorted_wrt (\<lambda>p q. fst p < fst q) (enumerate i rs)"
    by (simp add: map_fst_enumerate)
  then have "sorted_wrt (\<lambda>p q. fst p < fst q)
               (filter (\<lambda>p. gid_at (snd p) = Some gid) (enumerate i rs))"
    by (rule sorted_wrt_filter)
  then show ?thesis by (simp add: positions_of_def sorted_wrt_map)
qed


lemma first_positions_add_to_groups:
  assumes "list_all (\<lambda>p. result_indices (snd p) \<noteq> []) acc"
  shows "set (map first_position (add_to_groups i m acc)) \<subseteq>
           insert i (set (map first_position acc))"
  using assms
proof (induction acc)
  case Nil
  show ?case by (simp add: first_position_def)
next
  case (Cons a acc)
  obtain gid g where a: "a = (gid, g)" by (cases a)
  show ?case
  proof (cases "gid = group_id m")
    case True
    with a Cons.prems show ?thesis by (auto simp: first_position_def)
  next
    case False
    with a Cons show ?thesis by auto
  qed
qed

lemma groups_in_order_add_to_groups:
  assumes "groups_in_order i acc"
  shows "groups_in_order (Suc i) (add_to_groups i m acc)"
  using assms
proof (induction acc)
  case Nil
  show ?case by (simp add: groups_in_order_def)
next
  case (Cons a acc)
  obtain gid g where a: "a = (gid, g)" by (cases a)
  from Cons.prems have tl: "groups_in_order i acc"
    by (simp add: groups_in_order_def)
  from Cons.prems a have g: "result_indices g \<noteq> []" "list_all (\<lambda>j. j < i) (result_indices g)"
    by (simp_all add: groups_in_order_def)
  from Cons.prems have rest: "list_all (\<lambda>p. result_indices (snd p) \<noteq> [] \<and>
                                 list_all (\<lambda>j. j < i) (result_indices (snd p))) acc"
    and above: "\<forall>h\<in>set (map first_position acc). first_position a < h"
    by (simp_all add: groups_in_order_def)
  show ?case
  proof (cases "gid = group_id m")
    case True
    have "list_all (\<lambda>p. result_indices (snd p) \<noteq> [] \<and>
                     list_all (\<lambda>j. j < Suc i) (result_indices (snd p))) acc"
      using rest by (fastforce simp: list_all_iff less_Suc_eq)
    moreover have "list_all (\<lambda>j. j < Suc i) (result_indices g @ [i])"
      using g by (auto simp: list_all_iff)
    moreover have "first_position (gid, g\<lparr>result_indices := result_indices g @ [i]\<rparr>) =
                     first_position a"
      using g a by (simp add: first_position_def)
    ultimately show ?thesis
      using True a Cons.prems by (simp add: groups_in_order_def)
  next
    case False
    from Cons.IH [OF tl] have ih: "groups_in_order (Suc i) (add_to_groups i m acc)" .
    have nonempty: "list_all (\<lambda>p. result_indices (snd p) \<noteq> []) acc"
      using rest by (auto simp: list_all_iff)
    have "first_position a < i"
      using g a by (cases "result_indices g") (auto simp: first_position_def)
    with above first_positions_add_to_groups [OF nonempty, of i m]
    have "\<forall>h\<in>set (map first_position (add_to_groups i m acc)). first_position a < h"
      by auto
    moreover have "list_all (\<lambda>j. j < Suc i) (result_indices g)"
      using g by (auto simp: list_all_iff)
    ultimately show ?thesis
      using False a g ih by (simp add: groups_in_order_def)
  qed
qed

lemma groups_in_order_Suc: "groups_in_order i acc \<Longrightarrow> groups_in_order (Suc i) acc"
  by (fastforce simp: groups_in_order_def list_all_iff less_Suc_eq)

lemma groups_in_order_collect_groups:
  "groups_in_order i acc \<Longrightarrow> groups_in_order (i + length rs) (collect_groups i rs acc)"
proof (induction rs arbitrary: i acc)
  case Nil
  then show ?case by simp
next
  case (Cons r rs)
  have "groups_in_order (Suc i)
          (case record_metadata r of None \<Rightarrow> acc | Some m \<Rightarrow> add_to_groups i m acc)"
    using Cons.prems
    by (auto split: option.splits intro: groups_in_order_Suc groups_in_order_add_to_groups)
  from Cons.IH [OF this] show ?case by simp
qed


lemma indices_of_Nil: "indices_of [] gid = []"
  by (simp add: indices_of_def)

lemma collect_groups_distinct_keys: "distinct (map fst (collect_groups 0 page []))"
  by (rule distinct_collect_groups) simp

lemma collect_groups_in_order: "groups_in_order (length page) (collect_groups 0 page [])"
  using groups_in_order_collect_groups [of 0 "[]" page] by (simp add: groups_in_order_def)

lemma collect_groups_positions:
  assumes "p \<in> set (collect_groups 0 page [])"
  shows "result_indices (snd p) = positions_of 0 page (fst p)"
proof -
  from assms have "(fst p, snd p) \<in> set (collect_groups 0 page [])" by simp
  then have "map_of (collect_groups 0 page []) (fst p) = Some (snd p)"
    using map_of_eq_Some_iff [OF collect_groups_distinct_keys [of page]] by blast
  then have "indices_of (collect_groups 0 page []) (fst p) = result_indices (snd p)"
    by (simp add: indices_of_def)
  moreover have "indices_of (collect_groups 0 page []) (fst p) = positions_of 0 page (fst p)"
    by (simp add: indices_of_collect_groups indices_of_Nil)
  ultimately show ?thesis by simp
qed

lemma collect_groups_has_key:
  assumes "j < length page" and "gid_at (page ! j) = Some a"
  shows "a \<in> fst ` set (collect_groups 0 page [])"
proof -
  from assms have "j \<in> set (positions_of 0 page a)"
    by (simp add: set_positions_of)
  then have "indices_of (collect_groups 0 page []) a \<noteq> []"
    by (auto simp: indices_of_collect_groups indices_of_Nil)
  then have "map_of (collect_groups 0 page []) a \<noteq> None"
    by (auto simp: indices_of_def split: option.splits)
  then show ?thesis
    by (simp add: map_of_eq_None_iff)
qed

lemma collect_groups_members:
  assumes "k < length (collect_groups 0 page [])"
  shows "set (result_indices (snd (collect_groups 0 page [] ! k))) =
           {j. j < length page \<and> gid_at (page ! j) = Some (fst (collect_groups 0 page [] ! k))}"
  using collect_groups_positions [OF nth_mem [OF assms]]
  by (simp add: set_positions_of)

lemma collect_groups_partition:
  assumes all: "list_all (\<lambda>r. record_metadata r \<noteq> None) page"
  defines "groups \<equiv> map snd (collect_groups 0 page [])"
  shows "(\<forall>j<length page. \<exists>!k. k < length groups \<and> j \<in> set (result_indices (groups ! k))) \<and>
         (\<forall>gr\<in>set groups. result_indices gr \<noteq> [] \<and> sorted_wrt (<) (result_indices gr) \<and>
                            set (result_indices gr) \<subseteq> {0..<length page}) \<and>
         (\<forall>i<length page. \<forall>j<length page.
            (\<exists>gr\<in>set groups. i \<in> set (result_indices gr) \<and> j \<in> set (result_indices gr))
              \<longleftrightarrow> gid_at (page ! i) = gid_at (page ! j)) \<and>
         sorted_wrt (<) (map (\<lambda>gr. hd (result_indices gr)) groups)"
proof -
  let ?res = "collect_groups 0 page []"
  have len: "length groups = length ?res" by (simp add: groups_def)
  have nth: "\<And>k. k < length ?res \<Longrightarrow> groups ! k = snd (?res ! k)"
    by (simp add: groups_def)
  have mem: "\<And>k j. k < length ?res \<Longrightarrow>
               j \<in> set (result_indices (groups ! k)) \<longleftrightarrow>
               j < length page \<and> gid_at (page ! j) = Some (fst (?res ! k))"
    using collect_groups_members [of _ page] nth by simp
  have some: "\<And>j. j < length page \<Longrightarrow> \<exists>a. gid_at (page ! j) = Some a"
    using all by (auto simp: list_all_length gid_at_def)
  have ex: "\<And>j. j < length page \<Longrightarrow>
              \<exists>k<length ?res. gid_at (page ! j) = Some (fst (?res ! k))"
  proof -
    fix j assume j: "j < length page"
    from some [OF j] obtain a where a: "gid_at (page ! j) = Some a" by blast
    from collect_groups_has_key [OF j a] obtain p where "p \<in> set ?res" "fst p = a" by auto
    then obtain k where "k < length ?res" "?res ! k = p" by (auto simp: in_set_conv_nth)
    with a \<open>fst p = a\<close> show "\<exists>k<length ?res. gid_at (page ! j) = Some (fst (?res ! k))"
      by auto
  qed
  have uniq: "\<And>k k'. k < length ?res \<Longrightarrow> k' < length ?res \<Longrightarrow>
                fst (?res ! k) = fst (?res ! k') \<Longrightarrow> k = k'"
  proof -
    fix k k' assume k: "k < length ?res" "k' < length ?res" "fst (?res ! k) = fst (?res ! k')"
    then have "map fst ?res ! k = map fst ?res ! k'" by simp
    with k nth_eq_iff_index_eq [OF collect_groups_distinct_keys [of page], of k k']
    show "k = k'" by simp
  qed
  have a: "\<forall>j<length page. \<exists>!k. k < length groups \<and> j \<in> set (result_indices (groups ! k))"
  proof (intro allI impI)
    fix j assume j: "j < length page"
    from ex [OF j] obtain k where k: "k < length ?res" "gid_at (page ! j) = Some (fst (?res ! k))"
      by blast
    show "\<exists>!k. k < length groups \<and> j \<in> set (result_indices (groups ! k))"
    proof (rule ex1I [of _ k])
      show "k < length groups \<and> j \<in> set (result_indices (groups ! k))"
        using k j mem len by simp
    next
      fix k' assume "k' < length groups \<and> j \<in> set (result_indices (groups ! k'))"
      then have "k' < length ?res" "gid_at (page ! j) = Some (fst (?res ! k'))"
        using mem len by auto
      with k uniq show "k' = k" by simp
    qed
  qed
  have b: "\<forall>gr\<in>set groups. result_indices gr \<noteq> [] \<and> sorted_wrt (<) (result_indices gr) \<and>
                            set (result_indices gr) \<subseteq> {0..<length page}"
  proof
    fix gr assume "gr \<in> set groups"
    then obtain p where p: "p \<in> set ?res" "gr = snd p" by (auto simp: groups_def)
    from collect_groups_in_order [of page] p have "result_indices gr \<noteq> []"
      by (auto simp: groups_in_order_def list_all_iff)
    moreover from collect_groups_positions [OF p(1)] p(2)
    have "result_indices gr = positions_of 0 page (fst p)" by simp
    ultimately show "result_indices gr \<noteq> [] \<and> sorted_wrt (<) (result_indices gr) \<and>
                       set (result_indices gr) \<subseteq> {0..<length page}"
      by (auto simp: sorted_positions_of set_positions_of)
  qed
  have c: "\<forall>i<length page. \<forall>j<length page.
            (\<exists>gr\<in>set groups. i \<in> set (result_indices gr) \<and> j \<in> set (result_indices gr))
              \<longleftrightarrow> gid_at (page ! i) = gid_at (page ! j)"
  proof (intro allI impI)
    fix i j assume i: "i < length page" and j: "j < length page"
    show "(\<exists>gr\<in>set groups. i \<in> set (result_indices gr) \<and> j \<in> set (result_indices gr))
              \<longleftrightarrow> gid_at (page ! i) = gid_at (page ! j)"
    proof
      assume "\<exists>gr\<in>set groups. i \<in> set (result_indices gr) \<and> j \<in> set (result_indices gr)"
      then obtain gr where gr: "gr \<in> set groups" "i \<in> set (result_indices gr)"
        "j \<in> set (result_indices gr)" by blast
      from gr(1) obtain k where "k < length groups" "groups ! k = gr"
        by (auto simp: in_set_conv_nth)
      with gr have "k < length groups" "i \<in> set (result_indices (groups ! k))"
        "j \<in> set (result_indices (groups ! k))"
        by simp_all
      with mem len show "gid_at (page ! i) = gid_at (page ! j)" by simp
    next
      assume eq: "gid_at (page ! i) = gid_at (page ! j)"
      from ex [OF i] obtain k where k: "k < length ?res"
        "gid_at (page ! i) = Some (fst (?res ! k))" by blast
      with eq i j mem have "i \<in> set (result_indices (groups ! k))"
        "j \<in> set (result_indices (groups ! k))" by simp_all
      moreover have "groups ! k \<in> set groups" using k len by simp
      ultimately show "\<exists>gr\<in>set groups. i \<in> set (result_indices gr) \<and>
                          j \<in> set (result_indices gr)" by blast
    qed
  qed
  have d: "sorted_wrt (<) (map (\<lambda>gr. hd (result_indices gr)) groups)"
  proof -
    have "map (\<lambda>gr. hd (result_indices gr)) groups = map first_position ?res"
      by (simp add: groups_def first_position_def)
    with collect_groups_in_order [of page] show ?thesis
      by (simp add: groups_in_order_def)
  qed
  from a b c d show ?thesis by blast
qed


lemma first_index_nth: "x \<in> set xs \<Longrightarrow> xs ! first_index x xs = x"
  by (induction xs) auto

lemma first_index_inj:
  assumes "a \<in> set ks" and "b \<in> set ks" and "first_index a ks = first_index b ks"
  shows "a = b"
proof -
  have "a = ks ! first_index a ks" by (rule first_index_nth [OF assms(1), symmetric])
  also have "\<dots> = ks ! first_index b ks" by (simp only: assms(3))
  also have "\<dots> = b" by (rule first_index_nth [OF assms(2)])
  finally show ?thesis .
qed

lemma annotate_distinct_gid:
  assumes "r \<in> set (annotate_distinct cols rs)"
  shows "gid_at r = Some (first_index (group_key cols (record_data r)) (map (group_key cols) rs)) \<and>
         group_key cols (record_data r) \<in> set (map (group_key cols) rs)"
  using assms by (auto simp: annotate_distinct_def gid_at_def Let_def)

lemma annotate_distinct_same_group:
  assumes "r1 \<in> set (annotate_distinct cols rs)" and "r2 \<in> set (annotate_distinct cols rs)"
  shows "gid_at r1 = gid_at r2 \<longleftrightarrow>
         group_key cols (record_data r1) = group_key cols (record_data r2)"
proof -
  let ?ks = "map (group_key cols) rs"
  let ?k1 = "group_key cols (record_data r1)" and ?k2 = "group_key cols (record_data r2)"
  from annotate_distinct_gid [OF assms(1)]
  have 1: "gid_at r1 = Some (first_index ?k1 ?ks)" "?k1 \<in> set ?ks" by simp_all
  from annotate_distinct_gid [OF assms(2)]
  have 2: "gid_at r2 = Some (first_index ?k2 ?ks)" "?k2 \<in> set ?ks" by simp_all
  show ?thesis
  proof
    assume "gid_at r1 = gid_at r2"
    with 1 2 have "first_index ?k1 ?ks = first_index ?k2 ?ks" by simp
    from first_index_inj [OF 1(2) 2(2) this] show "?k1 = ?k2" .
  next
    assume "?k1 = ?k2"
    with 1 2 show "gid_at r1 = gid_at r2" by simp
  qed
qed

lemma set_window_subset: "set (window lim off xs) \<subseteq> set xs"
  unfolding window_def
  using set_take_subset [of "nat lim" "drop (nat off) xs"] set_drop_subset [of "nat off" xs]
  by blast

lemma process_annotated_records_spec_page_local:
  assumes "snd (process_annotated_records_spec page) = Some groups" and "gr \<in> set groups"
  shows "set (result_indices gr) \<subseteq> {0..<length page}"
proof -
  from assms(1) have "groups = map snd (collect_groups 0 page [])"
    by (simp add: process_annotated_records_spec_def split: if_splits)
  with assms(2) obtain p where p: "p \<in> set (collect_groups 0 page [])" "gr = snd p"
    by auto
  from collect_groups_positions [OF p(1)] p(2) show ?thesis
    by (auto simp: set_positions_of)
qed

section \<open>Limit and offset parsing\<close>

text \<open>
  C4. The parsed limit is 50 when the parameter is absent and is never above 500 (a larger
  value becomes 500, a value from 1 to 500 is kept); the parsed offset is 0 when the
  parameter is absent and is never below 0 (a negative value becomes 0, any other is kept).
  These are the values the paginator stores, and an exception of \<open>paginate_queryset\<close> comes
  from the table lookup or from one of the two table queries, never from the parsing.
\<close>

theorem limit_offset_defaults_and_clamping:
  "(query_params req ''limit'' = None \<longrightarrow> parse_limit req = 50) \<and>
   (\<forall>n. query_params req ''limit'' = Some (Parsed n) \<and> 500 < n \<longrightarrow> parse_limit req = 500) \<and>
   (\<forall>n. query_params req ''limit'' = Some (Parsed n) \<and> 0 < n \<and> n \<le> 500 \<longrightarrow> parse_limit req = n) \<and>
   0 < parse_limit req \<and> parse_limit req \<le> 500 \<and>
   (query_params req ''offset'' = None \<longrightarrow> get_offset req = 0) \<and>
   (\<forall>n. query_params req ''offset'' = Some (Parsed n) \<longrightarrow> get_offset req = max 0 n) \<and>
   0 \<le> get_offset req \<and>
   (\<forall>self records log'.
      paginate_queryset e req tid f ob gb dup d dd log = (Returned (self, records), log')
        \<longrightarrow> limit self = parse_limit req \<and> offset self = get_offset req) \<and>
   (\<forall>x log'.
      paginate_queryset e req tid f ob gb dup d dd log = (Raised x, log')
        \<longrightarrow> (tables e tid = None \<and> x = NotFound) \<or>
            (\<exists>t. tables e tid = Some t \<and>
                 (sa_num_records t f d dd = Inl x \<or>
                  get_records t (parse_limit req) (get_offset req) f ob gb dup d dd = Inl x)))"
proof -
  have a: "\<forall>self records log'.
      paginate_queryset e req tid f ob gb dup d dd log = (Returned (self, records), log')
        \<longrightarrow> limit self = parse_limit req \<and> offset self = get_offset req"
    using paginate_queryset_Returned by blast
  have b: "\<forall>x log'.
      paginate_queryset e req tid f ob gb dup d dd log = (Raised x, log')
        \<longrightarrow> (tables e tid = None \<and> x = NotFound) \<or>
            (\<exists>t. tables e tid = Some t \<and>
                 (sa_num_records t f d dd = Inl x \<or>
                  get_records t (parse_limit req) (get_offset req) f ob gb dup d dd = Inl x))"
    using paginate_queryset_Raised by blast
  have c: "0 < parse_limit req \<and> parse_limit req \<le> 500"
    by (simp add: parse_limit_cases split: option.splits param.splits)
  have d: "0 \<le> get_offset req"
    by (simp add: get_offset_cases split: option.splits param.splits)
  show ?thesis
    using a b c d by (simp add: parse_limit_cases get_offset_cases)
qed


theorem limit_offset_defaults_and_clamping_witness:
  "query_params wild_request ''limit'' = Some (Parsed 1000) \<and>
   query_params wild_request ''offset'' = Some (Parsed (- 3)) \<and>
   query_params plain_request ''limit'' = None \<and>
   query_params plain_request ''offset'' = None \<and>
   parse_limit wild_request = 500 \<and> get_offset wild_request = 0 \<and>
   parse_limit plain_request = 50 \<and> get_offset plain_request = 0 \<and>
   returned (fst (paginate_queryset nasa_env wild_request 1 JNull (JArr []) None JNull JNull
                    False [])) =
     Some (\<lparr>limit = 500, offset = 0, count = 3, request = wild_request\<rparr>,
           annotate nasa None nasa_rows)"
proof -
  have l: "query_params wild_request ''limit'' = Some (Parsed 1000)"
    and o: "query_params wild_request ''offset'' = Some (Parsed (- 3))"
    and pl: "query_params plain_request ''limit'' = None"
    and po: "query_params plain_request ''offset'' = None"
    by (simp_all add: request_defs)
  note w = limit_offset_defaults_and_clamping
    [of wild_request nasa_env 1 JNull "JArr []" None JNull JNull False "[]"]
  note p = limit_offset_defaults_and_clamping
    [of plain_request nasa_env 1 JNull "JArr []" None JNull JNull False "[]"]
  from w l have "parse_limit wild_request = 500" by simp
  moreover from w o have "get_offset wild_request = 0" by simp
  moreover from p pl have "parse_limit plain_request = 50" by blast
  moreover from p po have "get_offset plain_request = 0" by blast
  moreover have "returned (fst (paginate_queryset nasa_env wild_request 1 JNull (JArr []) None
                    JNull JNull False [])) =
     Some (\<lparr>limit = 500, offset = 0, count = 3, request = wild_request\<rparr>,
           annotate nasa None nasa_rows)"
    unfolding wild_run by simp
  ultimately show ?thesis using l o pl po by blast
qed

section \<open>Rewriting of the function specifications\<close>

text \<open>
  C5. The rewriting pass of \<open>_rewrite_db_function_specs\<close> runs exactly when a filter
  specification, a function specification or both are supplied (a specification is an
  object with an operator, which is true in Python's truth test; \<open>None\<close> is not). With
  neither, the result is \<open>(None, None)\<close> and nothing is called: no table is fetched and no
  mapping of column ids to names is looked up, whatever the tables are. With one, the table
  and its mapping are fetched once and only that specification is rewritten, the other
  result being \<open>None\<close>. With both, each is rewritten against the same mapping, the filter
  first.
\<close>

theorem rewrite_runs_exactly_for_supplied_specs:
  assumes tab: "tables e table_pk = Some t"
  shows
   "\<not> truthy JNull \<and> truthy (JObj [(op, args)]) \<and>
    (\<not> truthy fu \<and> \<not> truthy du \<longrightarrow>
       rewrite_db_function_specs e' pk' fu du log = (Returned (JNull, JNull), log)) \<and>
    (truthy fu \<and> \<not> truthy du \<longrightarrow>
       rewrite_db_function_specs e table_pk fu du log =
         (case rewrite_db_function_spec_column_ids_to_names e
                 (get_dj_column_id_to_name_mapping t) fu of
            Inl x \<Rightarrow> Raised x
          | Inr fp \<Rightarrow> Returned (fp, JNull),
          log @ [GetTable table_pk, GetColumnMapping table_pk,
                 RewriteSpec (get_dj_column_id_to_name_mapping t) fu])) \<and>
    (\<not> truthy fu \<and> truthy du \<longrightarrow>
       rewrite_db_function_specs e table_pk fu du log =
         (case rewrite_db_function_spec_column_ids_to_names e
                 (get_dj_column_id_to_name_mapping t) du of
            Inl x \<Rightarrow> Raised x
          | Inr dp \<Rightarrow> Returned (JNull, dp),
          log @ [GetTable table_pk, GetColumnMapping table_pk,
                 RewriteSpec (get_dj_column_id_to_name_mapping t) du])) \<and>
    (truthy fu \<and> truthy du \<longrightarrow>
       rewrite_db_function_specs e table_pk fu du log =
         (case rewrite_db_function_spec_column_ids_to_names e
                 (get_dj_column_id_to_name_mapping t) fu of
            Inl x \<Rightarrow>
              (Raised x,
               log @ [GetTable table_pk, GetColumnMapping table_pk,
                      RewriteSpec (get_dj_column_id_to_name_mapping t) fu])
          | Inr fp \<Rightarrow>
              (case rewrite_db_function_spec_column_ids_to_names e
                      (get_dj_column_id_to_name_mapping t) du of
                 Inl x \<Rightarrow> Raised x
               | Inr dp \<Rightarrow> Returned (fp, dp),
               log @ [GetTable table_pk, GetColumnMapping table_pk,
                      RewriteSpec (get_dj_column_id_to_name_mapping t) fu,
                      RewriteSpec (get_dj_column_id_to_name_mapping t) du])))"
  using tab
  by (simp add: rewrite_db_function_specs_def get_table_or_404_def Let_def
      split: sum.splits)

theorem rewrite_runs_exactly_for_supplied_specs_witness:
  "tables nasa_env 1 = Some (spec_table nasa 1) \<and>
   rewrite_db_function_specs nasa_env 7 JNull JNull [] = (Returned (JNull, JNull), []) \<and>
   rewrite_db_function_specs nasa_env 1 center_is_ames JNull [] =
     (Returned (center_is_ames, JNull),
      [GetTable 1, GetColumnMapping 1, RewriteSpec [(1, ''id''), (2, ''Center'')] center_is_ames]) \<and>
   rewrite_db_function_specs nasa_env 1 JNull identity_of_center [] =
     (Returned (JNull, identity_of_center),
      [GetTable 1, GetColumnMapping 1,
       RewriteSpec [(1, ''id''), (2, ''Center'')] identity_of_center]) \<and>
   rewrite_db_function_specs nasa_env 1 center_is_ames identity_of_center [] =
     (Returned (center_is_ames, identity_of_center),
      [GetTable 1, GetColumnMapping 1, RewriteSpec [(1, ''id''), (2, ''Center'')] center_is_ames,
       RewriteSpec [(1, ''id''), (2, ''Center'')] identity_of_center])"
proof -
  have tab: "tables nasa_env 1 = Some (spec_table nasa 1)"
    by (simp add: nasa_env_def)
  have r: "rewrite_db_function_spec_column_ids_to_names nasa_env = (\<lambda>m s. Inr s)"
    by (simp add: nasa_env_def)
  have t: "truthy center_is_ames" "truthy identity_of_center" "\<not> truthy JNull"
    by (simp_all add: center_is_ames_def identity_of_center_def)
  note a = rewrite_runs_exactly_for_supplied_specs
             [OF tab, where fu = JNull and du = JNull and e' = nasa_env and pk' = 7 and log = "[]"]
  note b = rewrite_runs_exactly_for_supplied_specs
             [OF tab, where fu = center_is_ames and du = JNull and log = "[]"]
  note c = rewrite_runs_exactly_for_supplied_specs
             [OF tab, where fu = JNull and du = identity_of_center and log = "[]"]
  note d = rewrite_runs_exactly_for_supplied_specs
             [OF tab, where fu = center_is_ames and du = identity_of_center and log = "[]"]
  from a t have 1: "rewrite_db_function_specs nasa_env 7 JNull JNull [] =
      (Returned (JNull, JNull), [])" by blast
  from b t have 2: "rewrite_db_function_specs nasa_env 1 center_is_ames JNull [] =
     (Returned (center_is_ames, JNull),
      [GetTable 1, GetColumnMapping 1, RewriteSpec [(1, ''id''), (2, ''Center'')] center_is_ames])"
    by (simp add: r spec_table_def nasa_def)
  from c t have 3: "rewrite_db_function_specs nasa_env 1 JNull identity_of_center [] =
     (Returned (JNull, identity_of_center),
      [GetTable 1, GetColumnMapping 1,
       RewriteSpec [(1, ''id''), (2, ''Center'')] identity_of_center])"
    by (simp add: r spec_table_def nasa_def)
  from d t have 4: "rewrite_db_function_specs nasa_env 1 center_is_ames identity_of_center [] =
     (Returned (center_is_ames, identity_of_center),
      [GetTable 1, GetColumnMapping 1, RewriteSpec [(1, ''id''), (2, ''Center'')] center_is_ames,
       RewriteSpec [(1, ''id''), (2, ''Center'')] identity_of_center])"
    by (simp add: r spec_table_def nasa_def)
  from tab 1 2 3 4 show ?thesis by blast
qed

section \<open>The grouping paginator on an empty window\<close>

text \<open>
  C10. When the windowed record sequence is empty, the record list the grouping paginator
  returns is \<open>None\<close>, not an empty sequence, and \<open>process_annotated_records\<close> is not called:
  the calls made after the \<open>GroupBy\<close> is built are the table lookup, the count query and the
  record query, and nothing else. (When the window is not empty, the returned list is the
  first component of what \<open>process_annotated_records\<close> gives for the window.)
\<close>

theorem empty_window_returns_None:
  assumes ret: "group_paginate_queryset e req tid f ob grp dup d dd log = (Returned (self, out), log')"
    and tab: "tables e tid = Some t"
    and mg: "make_group_by e grp log = (Returned gb, log1)"
    and win: "get_records t (parse_limit req) (get_offset req) f ob gb dup d dd = Inr records"
  shows "(records = [] \<longrightarrow>
            out = None \<and>
            log' = log1 @ [GetTable tid, SaNumRecords tid f d dd,
                           GetRecords tid (parse_limit req) (get_offset req) f ob gb dup d dd]) \<and>
         (records \<noteq> [] \<longrightarrow> out = Some (fst (process_annotated_records e records)))"
  using group_paginate_queryset_Returned [OF ret] tab mg win by auto

theorem empty_window_returns_None_witness:
  "tables nasa_env 1 = Some (spec_table nasa 1) \<and>
   make_group_by nasa_env JNull [] = (Returned None, []) \<and>
   get_records (spec_table nasa 1) (parse_limit far_request) (get_offset far_request) JNull
     (JArr []) None JNull JNull False = Inr [] \<and>
   group_paginate_queryset nasa_env far_request 1 JNull (JArr []) JNull JNull JNull False [] =
     (Returned (\<lparr>limit = 50, offset = 10, count = 3, request = far_request, grouping = None\<rparr>,
                None),
      [GetTable 1, SaNumRecords 1 JNull JNull False,
       GetRecords 1 50 10 JNull (JArr []) None JNull JNull False])"
proof -
  have tab: "tables nasa_env 1 = Some (spec_table nasa 1)"
    by (simp add: nasa_env_def)
  have mg: "make_group_by nasa_env JNull [] = (Returned None, [])"
    by (simp add: make_group_by_def)
  have win: "get_records (spec_table nasa 1) (parse_limit far_request) (get_offset far_request)
     JNull (JArr []) None JNull JNull False = Inr []"
    by (simp add: paginate_defs nasa_defs request_defs)
  have run: "group_paginate_queryset nasa_env far_request 1 JNull (JArr []) JNull JNull JNull
      False [] =
     (Returned (\<lparr>limit = 50, offset = 10, count = 3, request = far_request, grouping = None\<rparr>,
                None),
      [GetTable 1, SaNumRecords 1 JNull JNull False,
       GetRecords 1 50 10 JNull (JArr []) None JNull JNull False])"
    by (simp add: paginate_defs nasa_defs request_defs paginator.defs group_paginator.defs)
  from empty_window_returns_None [OF run tab mg win]
  show ?thesis using run tab mg win by simp
qed

section \<open>Grouping metadata\<close>

text \<open>
  C2, as the claim states it, fails: with grouping requested (\<open>{"columns": ["Center"]}\<close>)
  and an offset beyond the three rows, the window is empty and the grouping metadata is
  a grouping object whose \<open>groups\<close> entry is \<open>None\<close>, not \<open>None\<close> itself.
\<close>

theorem grouping_requested_empty_window_counterexample:
  "truthy grouping_by_center \<and>
   get_records (spec_table nasa 1) 50 10 JNull (JArr []) (Some center_group_by) JNull JNull False
     = Inr [] \<and>
   map_option (grouping \<circ> fst)
     (returned (fst (group_paginate_queryset nasa_env far_request 1 JNull (JArr [])
                       grouping_by_center JNull JNull False []))) =
     Some (Some \<lparr>gd_columns = [''Center''], gd_mode = ''distinct'', gd_num_groups = None,
                 gd_ranged = False, gd_groups = None\<rparr>) \<and>
   map_option (grouping \<circ> fst)
     (returned (fst (group_paginate_queryset nasa_env far_request 1 JNull (JArr [])
                       grouping_by_center JNull JNull False []))) \<noteq> Some None"
  unfolding far_run by (simp add: nasa_defs)


text \<open>
  C2, amended. The grouping metadata is \<open>None\<close> exactly when no grouping is requested.
  When grouping is requested and the window is empty, the metadata is the grouping object
  with the columns, mode, number of groups and ranged flag of the \<open>GroupBy\<close>, and \<open>None\<close> for
  its groups. \<open>process_annotated_records\<close> is called only on a window that is not empty, and
  only on the window.
\<close>

theorem empty_window_grouping_has_null_groups:
  assumes ret: "group_paginate_queryset e req tid f ob grp dup d dd log = (Returned (self, out), log')"
    and tab: "tables e tid = Some t"
    and mg: "make_group_by e grp log = (Returned gb, log1)"
    and win: "get_records t (parse_limit req) (get_offset req) f ob gb dup d dd = Inr records"
  shows "(grouping self = None \<longleftrightarrow> \<not> truthy grp) \<and>
         (records = [] \<longrightarrow>
            grouping self =
              map_option (\<lambda>g. \<lparr>gd_columns = columns g, gd_mode = mode g,
                                gd_num_groups = num_groups g, gd_ranged = ranged g,
                                gd_groups = None\<rparr>) gb) \<and>
         (\<forall>rs. ProcessAnnotatedRecords rs \<in> set (drop (length log1) log')
                \<longrightarrow> rs = records \<and> records \<noteq> [])"
proof -
  from group_paginate_queryset_Returned [OF ret] tab mg win
  have g: "grouping self =
             (case gb of
                None \<Rightarrow> None
              | Some g \<Rightarrow>
                  Some \<lparr>gd_columns = columns g, gd_mode = mode g, gd_num_groups = num_groups g,
                        gd_ranged = ranged g,
                        gd_groups = (if records \<noteq> []
                                     then snd (process_annotated_records e records)
                                     else None)\<rparr>)"
    and l: "log' = log1 @ [GetTable tid, SaNumRecords tid f d dd,
                          GetRecords tid (parse_limit req) (get_offset req) f ob gb dup d dd]
                    @ (if records \<noteq> [] then [ProcessAnnotatedRecords records] else [])"
    by auto
  from make_group_by_Returned [OF mg] have n: "gb = None \<longleftrightarrow> \<not> truthy grp" by blast
  have 1: "grouping self = None \<longleftrightarrow> \<not> truthy grp"
    using g n by (cases gb) auto
  have 2: "records = [] \<longrightarrow>
            grouping self =
              map_option (\<lambda>g. \<lparr>gd_columns = columns g, gd_mode = mode g,
                                gd_num_groups = num_groups g, gd_ranged = ranged g,
                                gd_groups = None\<rparr>) gb"
    using g by (cases gb) auto
  have 3: "\<forall>rs. ProcessAnnotatedRecords rs \<in> set (drop (length log1) log')
                \<longrightarrow> rs = records \<and> records \<noteq> []"
    using l by (auto split: if_splits)
  from 1 2 3 show ?thesis by blast
qed

theorem empty_window_grouping_has_null_groups_witness:
  "group_paginate_queryset nasa_env far_request 1 JNull (JArr []) grouping_by_center JNull JNull
     False [] =
   (Returned
      (\<lparr>limit = 50, offset = 10, count = 3, request = far_request,
        grouping = Some \<lparr>gd_columns = [''Center''], gd_mode = ''distinct'',
                          gd_num_groups = None, gd_ranged = False, gd_groups = None\<rparr>\<rparr>,
       None),
    [MakeGroupBy grouping_by_center, GetTable 1, SaNumRecords 1 JNull JNull False,
     GetRecords 1 50 10 JNull (JArr []) (Some center_group_by) JNull JNull False]) \<and>
   tables nasa_env 1 = Some (spec_table nasa 1) \<and>
   make_group_by nasa_env grouping_by_center [] =
     (Returned (Some center_group_by), [MakeGroupBy grouping_by_center]) \<and>
   get_records (spec_table nasa 1) (parse_limit far_request) (get_offset far_request) JNull
     (JArr []) (Some center_group_by) JNull JNull False = Inr [] \<and>
   truthy grouping_by_center \<and>
   Some \<lparr>gd_columns = [''Center''], gd_mode = ''distinct'',
         gd_num_groups = None, gd_ranged = False, gd_groups = None\<rparr> =
     map_option (\<lambda>g. \<lparr>gd_columns = columns g, gd_mode = mode g,
                       gd_num_groups = num_groups g, gd_ranged = ranged g,
                       gd_groups = None\<rparr>) (Some center_group_by)"
proof -
  have tab: "tables nasa_env 1 = Some (spec_table nasa 1)"
    by (simp add: nasa_env_def)
  have mg: "make_group_by nasa_env grouping_by_center [] =
     (Returned (Some center_group_by), [MakeGroupBy grouping_by_center])"
    by (simp add: make_group_by_def nasa_defs)
  have win: "get_records (spec_table nasa 1) (parse_limit far_request) (get_offset far_request)
     JNull (JArr []) (Some center_group_by) JNull JNull False = Inr []"
    by (simp add: paginate_defs nasa_defs request_defs)
  from empty_window_grouping_has_null_groups [OF far_run tab mg win]
  show ?thesis using far_run tab mg win by simp
qed



text \<open>
  C6, as the claim states it, fails: on the three rows Kennedy, Ames, Ames with limit 2,
  the page holds rows 0 and 1, the \<open>GroupBy\<close> is handed to the record query, and the second
  group of the response has one page position and count 2: its count is not page-local.
\<close>

theorem page_local_statistics_counterexample:
  "map_option snd
     (returned (fst (group_paginate_queryset nasa_env short_request 1 JNull (JArr [])
                       grouping_by_center JNull JNull False []))) =
     Some (Some [[(''id'', JNum 1), (''Center'', JStr ''Kennedy'')],
                 [(''id'', JNum 2), (''Center'', JStr ''Ames'')]]) \<and>
   map_option (grouping \<circ> fst)
     (returned (fst (group_paginate_queryset nasa_env short_request 1 JNull (JArr [])
                       grouping_by_center JNull JNull False []))) =
     Some (Some \<lparr>gd_columns = [''Center''], gd_mode = ''distinct'', gd_num_groups = None,
                 gd_ranged = False,
                 gd_groups =
                   Some [\<lparr>g_count = 1, first_value = [(''Center'', JStr ''Kennedy'')],
                          last_value = [(''Center'', JStr ''Kennedy'')], result_indices = [0]\<rparr>,
                         \<lparr>g_count = 2, first_value = [(''Center'', JStr ''Ames'')],
                          last_value = [(''Center'', JStr ''Ames'')], result_indices = [1]\<rparr>]\<rparr>) \<and>
   snd (group_paginate_queryset nasa_env short_request 1 JNull (JArr [])
          grouping_by_center JNull JNull False []) =
     [MakeGroupBy grouping_by_center, GetTable 1, SaNumRecords 1 JNull JNull False,
      GetRecords 1 2 0 JNull (JArr []) (Some center_group_by) JNull JNull False,
      ProcessAnnotatedRecords (window 2 0 (annotate_distinct [''Center''] nasa_rows))]"
  unfolding short_run by simp


text \<open>
  C6, amended. When grouping is requested and the window is not empty, the \<open>GroupBy\<close> is
  passed to the table's record query together with limit and offset, and
  \<open>process_annotated_records\<close> is called once, on exactly the records of the returned window;
  the groups of the response and the returned record list are its two results. With the
  grouping engine of the spec, the positions in \<open>result_indices\<close> are positions of the page.
  (The other group statistics are those the record query annotated the rows with; they
  need not be page-local.)
\<close>

theorem grouping_post_processes_window_only:
  assumes ret: "group_paginate_queryset e req tid f ob grp dup d dd log = (Returned (self, out), log')"
    and tab: "tables e tid = Some t"
    and mg: "make_group_by e grp log = (Returned (Some g), log1)"
    and win: "get_records t (parse_limit req) (get_offset req) f ob (Some g) dup d dd = Inr records"
    and nonempty: "records \<noteq> []"
  shows "log' = log1 @ [GetTable tid, SaNumRecords tid f d dd,
                        GetRecords tid (parse_limit req) (get_offset req) f ob (Some g) dup d dd,
                        ProcessAnnotatedRecords records] \<and>
         grouping self =
           Some \<lparr>gd_columns = columns g, gd_mode = mode g, gd_num_groups = num_groups g,
                 gd_ranged = ranged g, gd_groups = snd (process_annotated_records e records)\<rparr> \<and>
         out = Some (fst (process_annotated_records e records)) \<and>
         (process_annotated_records e = process_annotated_records_spec \<longrightarrow>
            (\<forall>groups gr. snd (process_annotated_records e records) = Some groups \<and> gr \<in> set groups
                 \<longrightarrow> set (result_indices gr) \<subseteq> {0..<length records}))"
proof -
  have "process_annotated_records e = process_annotated_records_spec \<longrightarrow>
            (\<forall>groups gr. snd (process_annotated_records e records) = Some groups \<and> gr \<in> set groups
                 \<longrightarrow> set (result_indices gr) \<subseteq> {0..<length records})"
    using process_annotated_records_spec_page_local by auto
  with group_paginate_queryset_Returned [OF ret] tab mg win nonempty show ?thesis
    by auto
qed

theorem grouping_post_processes_window_only_witness:
  "group_paginate_queryset nasa_env short_request 1 JNull (JArr []) grouping_by_center JNull JNull
     False [] =
   (Returned
      (\<lparr>limit = 2, offset = 0, count = 3, request = short_request,
        grouping =
          Some \<lparr>gd_columns = [''Center''], gd_mode = ''distinct'', gd_num_groups = None,
                gd_ranged = False,
                gd_groups =
                  Some [\<lparr>g_count = 1, first_value = [(''Center'', JStr ''Kennedy'')],
                          last_value = [(''Center'', JStr ''Kennedy'')], result_indices = [0]\<rparr>,
                        \<lparr>g_count = 2, first_value = [(''Center'', JStr ''Ames'')],
                          last_value = [(''Center'', JStr ''Ames'')], result_indices = [1]\<rparr>]\<rparr>\<rparr>,
       Some [[(''id'', JNum 1), (''Center'', JStr ''Kennedy'')],
             [(''id'', JNum 2), (''Center'', JStr ''Ames'')]]),
    [MakeGroupBy grouping_by_center, GetTable 1, SaNumRecords 1 JNull JNull False,
     GetRecords 1 2 0 JNull (JArr []) (Some center_group_by) JNull JNull False,
     ProcessAnnotatedRecords
       (window 2 0 (annotate_distinct [''Center''] nasa_rows))]) \<and>
   tables nasa_env 1 = Some (spec_table nasa 1) \<and>
   make_group_by nasa_env grouping_by_center [] =
     (Returned (Some center_group_by), [MakeGroupBy grouping_by_center]) \<and>
   get_records (spec_table nasa 1) (parse_limit short_request) (get_offset short_request) JNull
     (JArr []) (Some center_group_by) JNull JNull False =
     Inr (window 2 0 (annotate_distinct [''Center''] nasa_rows)) \<and>
   window 2 0 (annotate_distinct [''Center''] nasa_rows) \<noteq> [] \<and>
   snd (process_annotated_records nasa_env
          (window 2 0 (annotate_distinct [''Center''] nasa_rows))) =
     Some [\<lparr>g_count = 1, first_value = [(''Center'', JStr ''Kennedy'')],
            last_value = [(''Center'', JStr ''Kennedy'')], result_indices = [0]\<rparr>,
           \<lparr>g_count = 2, first_value = [(''Center'', JStr ''Ames'')],
            last_value = [(''Center'', JStr ''Ames'')], result_indices = [1]\<rparr>]"
proof -
  have tab: "tables nasa_env 1 = Some (spec_table nasa 1)"
    by (simp add: nasa_env_def)
  have mg: "make_group_by nasa_env grouping_by_center [] =
     (Returned (Some center_group_by), [MakeGroupBy grouping_by_center])"
    by (simp add: make_group_by_def nasa_defs)
  have win: "get_records (spec_table nasa 1) (parse_limit short_request)
     (get_offset short_request) JNull (JArr []) (Some center_group_by) JNull JNull False =
     Inr (window 2 0 (annotate_distinct [''Center''] nasa_rows))"
    by (simp add: paginate_defs nasa_defs request_defs)
  have ne: "window 2 0 (annotate_distinct [''Center''] nasa_rows) \<noteq> []"
    by (simp add: nasa_defs)
  from grouping_post_processes_window_only [OF short_run tab mg win ne]
  have "Some \<lparr>gd_columns = [''Center''], gd_mode = ''distinct'', gd_num_groups = None,
                gd_ranged = False,
                gd_groups =
                  Some [\<lparr>g_count = 1, first_value = [(''Center'', JStr ''Kennedy'')],
                          last_value = [(''Center'', JStr ''Kennedy'')], result_indices = [0]\<rparr>,
                        \<lparr>g_count = 2, first_value = [(''Center'', JStr ''Ames'')],
                          last_value = [(''Center'', JStr ''Ames'')], result_indices = [1]\<rparr>]\<rparr>
     = Some \<lparr>gd_columns = columns center_group_by, gd_mode = mode center_group_by,
             gd_num_groups = num_groups center_group_by,
             gd_ranged = ranged center_group_by,
             gd_groups = snd (process_annotated_records nasa_env
                          (window 2 0 (annotate_distinct [''Center''] nasa_rows)))\<rparr>"
    by simp
  then have "snd (process_annotated_records nasa_env
          (window 2 0 (annotate_distinct [''Center''] nasa_rows))) =
     Some [\<lparr>g_count = 1, first_value = [(''Center'', JStr ''Kennedy'')],
            last_value = [(''Center'', JStr ''Kennedy'')], result_indices = [0]\<rparr>,
           \<lparr>g_count = 2, first_value = [(''Center'', JStr ''Ames'')],
            last_value = [(''Center'', JStr ''Ames'')], result_indices = [1]\<rparr>]"
    by simp
  with short_run tab mg win ne show ?thesis by blast
qed


section \<open>The count of a page\<close>

text \<open>
  C1. The count of the returned page is the result of the table's count query, which is
  given the filter, the function and the deduplicate flag and neither limit nor offset: two
  requests on the same table with the same filter, function and deduplicate flag get the
  same count whatever their limit and offset are, and the count field of the response is
  that count. With the query compiler of the spec behind the table, the count is the number
  of rows of the filtered, transformed and deduplicated result set, with no window applied.
\<close>

theorem count_invariance:
  assumes r1: "group_paginate_queryset e req1 tid f ob grp dup d dd log1 =
                 (Returned (self1, out1), log1')"
      and r2: "group_paginate_queryset e req2 tid f ob grp dup d dd log2 =
                 (Returned (self2, out2), log2')"
  shows "count self1 = count self2 \<and>
         resp_count (get_paginated_response self1 dat) = count self1 \<and>
         (\<exists>t. tables e tid = Some t \<and> sa_num_records t f d dd = Inr (count self1)) \<and>
         (\<forall>b. tables e tid = Some (spec_table b tid)
               \<longrightarrow> count self1 = int (length (result_set b f d dd)))"
proof -
  from group_paginate_queryset_Returned [OF r1] obtain t where
    t: "tables e tid = Some t" "sa_num_records t f d dd = Inr (count self1)" by blast
  from group_paginate_queryset_Returned [OF r2] t(1) have
    t2: "sa_num_records t f d dd = Inr (count self2)" by auto
  have a: "count self1 = count self2" using t(2) t2 by simp
  have b: "\<forall>b. tables e tid = Some (spec_table b tid)
               \<longrightarrow> count self1 = int (length (result_set b f d dd))"
    using t by (auto simp: spec_table_def dest: spec_sa_num_records_Inr)
  show ?thesis using a b t by (auto simp: get_paginated_response_def)
qed

theorem count_invariance_witness:
  "returned (fst (group_paginate_queryset nasa_env far_request 1 JNull (JArr [])
                    grouping_by_center JNull JNull False [])) =
     Some (\<lparr>limit = 50, offset = 10, count = 3, request = far_request,
            grouping = Some \<lparr>gd_columns = [''Center''], gd_mode = ''distinct'',
                              gd_num_groups = None, gd_ranged = False, gd_groups = None\<rparr>\<rparr>,
           None) \<and>
   map_option (count \<circ> fst)
     (returned (fst (group_paginate_queryset nasa_env short_request 1 JNull (JArr [])
                       grouping_by_center JNull JNull False []))) = Some 3 \<and>
   tables nasa_env 1 = Some (spec_table nasa 1) \<and>
   int (length (result_set nasa JNull JNull False)) = 3"
proof -
  have tab: "tables nasa_env 1 = Some (spec_table nasa 1)"
    by (simp add: nasa_env_def)
  note w = count_invariance [OF far_run short_run]
  from w have "count \<lparr>limit = 2, offset = 0, count = 3, request = short_request,
        grouping =
          Some \<lparr>gd_columns = [''Center''], gd_mode = ''distinct'', gd_num_groups = None,
                gd_ranged = False,
                gd_groups =
                  Some [\<lparr>g_count = 1, first_value = [(''Center'', JStr ''Kennedy'')],
                          last_value = [(''Center'', JStr ''Kennedy'')], result_indices = [0]\<rparr>,
                        \<lparr>g_count = 2, first_value = [(''Center'', JStr ''Ames'')],
                          last_value = [(''Center'', JStr ''Ames'')], result_indices = [1]\<rparr>]\<rparr>\<rparr>
      = 3" by simp
  moreover from w tab have "int (length (result_set nasa JNull JNull False)) = 3" by simp
  ultimately show ?thesis using tab unfolding far_run short_run by simp
qed

text \<open>
  C9. The count query is given the filter, the function and the deduplicate flag only;
  \<open>duplicate_only\<close> goes to the record query and never to the count query, so the count is
  the one the same request gets without \<open>duplicate_only\<close>. With the query compiler of the
  spec behind the table, the count is the size of the filtered result set without the
  duplicate-only restriction, while the records are a window of the restricted set; the
  count can therefore exceed the number of rows that can be retrieved (on the three rows of
  the concrete table, \<open>duplicate_only = ["id"]\<close> leaves no row and the count is 3).
\<close>

theorem count_ignores_duplicate_only:
  assumes ret: "paginate_queryset e req tid f ob gb dup d dd log = (Returned (self, records), log')"
      and ret0: "paginate_queryset e req tid f ob gb JNull d dd log = (Returned (self0, records0), log0')"
  shows "count self = count self0 \<and>
         log' = log @ [GetTable tid, SaNumRecords tid f d dd,
                       GetRecords tid (parse_limit req) (get_offset req) f ob gb dup d dd] \<and>
         (\<forall>b. tables e tid = Some (spec_table b tid) \<longrightarrow>
               count self = int (length (result_set b f d dd)) \<and>
               records = window (parse_limit req) (get_offset req)
                           (full_records b f ob gb dup d dd)) \<and>
         (\<exists>b ob' dup'. length (full_records b JNull ob' None dup' JNull False)
                         < length (result_set b JNull JNull False))"
proof -
  from paginate_queryset_Returned [OF ret] obtain t where
    t: "tables e tid = Some t" "sa_num_records t f d dd = Inr (count self)"
       "get_records t (parse_limit req) (get_offset req) f ob gb dup d dd = Inr records"
       "log' = log @ [GetTable tid, SaNumRecords tid f d dd,
                       GetRecords tid (parse_limit req) (get_offset req) f ob gb dup d dd]"
    by blast
  from paginate_queryset_Returned [OF ret0] t(1) have
    t0: "sa_num_records t f d dd = Inr (count self0)" by auto
  have a: "count self = count self0" using t(2) t0 by simp
  have b: "\<forall>b. tables e tid = Some (spec_table b tid) \<longrightarrow>
               count self = int (length (result_set b f d dd)) \<and>
               records = window (parse_limit req) (get_offset req)
                           (full_records b f ob gb dup d dd)"
    using t by (auto simp: spec_table_def dest: spec_sa_num_records_Inr spec_get_records_Inr)
  have "length (full_records nasa JNull (JArr []) None (JArr [JStr ''id'']) JNull False)
          < length (result_set nasa JNull JNull False)"
    by (simp add: nasa_defs)
  then have c: "\<exists>b ob' dup'. length (full_records b JNull ob' None dup' JNull False)
                         < length (result_set b JNull JNull False)"
    by blast
  from a b c t(4) show ?thesis by blast
qed

theorem count_ignores_duplicate_only_witness:
  "paginate_queryset nasa_env plain_request 1 JNull (JArr []) None (JArr [JStr ''id'']) JNull
     False [] =
   (Returned (\<lparr>limit = 50, offset = 0, count = 3, request = plain_request\<rparr>, []),
    [GetTable 1, SaNumRecords 1 JNull JNull False,
     GetRecords 1 50 0 JNull (JArr []) None (JArr [JStr ''id'']) JNull False]) \<and>
   map_option (count \<circ> fst)
     (returned (fst (paginate_queryset nasa_env plain_request 1 JNull (JArr []) None JNull JNull
                       False []))) = Some 3 \<and>
   tables nasa_env 1 = Some (spec_table nasa 1) \<and>
   int (length (result_set nasa JNull JNull False)) = 3 \<and>
   window (parse_limit plain_request) (get_offset plain_request)
     (full_records nasa JNull (JArr []) None (JArr [JStr ''id'']) JNull False) = []"
proof -
  have tab: "tables nasa_env 1 = Some (spec_table nasa 1)"
    by (simp add: nasa_env_def)
  note w = count_ignores_duplicate_only [OF unique_ids_run all_rows_run]
  from w have "\<forall>b. tables nasa_env 1 = Some (spec_table b 1) \<longrightarrow>
      count \<lparr>limit = 50, offset = 0, count = 3, request = plain_request\<rparr> =
        int (length (result_set b JNull JNull False)) \<and>
      [] = window (parse_limit plain_request) (get_offset plain_request)
             (full_records b JNull (JArr []) None (JArr [JStr ''id'']) JNull False)"
    by blast
  with tab have "count \<lparr>limit = 50, offset = 0, count = 3, request = plain_request\<rparr> =
        int (length (result_set nasa JNull JNull False)) \<and>
      [] = window (parse_limit plain_request) (get_offset plain_request)
             (full_records nasa JNull (JArr []) None (JArr [JStr ''id'']) JNull False)"
    by blast
  then have 1: "int (length (result_set nasa JNull JNull False)) = 3"
    and 2: "window (parse_limit plain_request) (get_offset plain_request)
     (full_records nasa JNull (JArr []) None (JArr [JStr ''id'']) JNull False) = []"
    by simp_all
  have 3: "map_option (count \<circ> fst)
     (returned (fst (paginate_queryset nasa_env plain_request 1 JNull (JArr []) None JNull JNull
                       False []))) = Some 3"
    unfolding all_rows_run by simp
  from 1 2 3 tab unique_ids_run show ?thesis by blast
qed

section \<open>Errors of the views\<close>

text \<open>
  C8. When the write of a record-create request fails with an integrity error whose
  original error is a \<open>NotNullViolation\<close>, the view raises the not-null-violation API
  exception with status 400, which carries the integrity error unchanged (and with it the
  implicated column) and the table; for any other integrity error it raises the generic API
  exception with status 400, carrying the integrity error unchanged.
\<close>

theorem create_integrity_errors:
  assumes tab: "tables e table_pk = Some t"
      and dict: "is_dict (data req)"
      and err: "create_record_or_records t (data req) = Inl (IntegrityError orig)"
  shows "create e req table_pk log =
           (Raised (if pg_class orig = NotNullViolation
                    then APIException NotNullViolationAPIException (IntegrityError orig) None 400
                           (Some (table_id t))
                    else APIException MathesarAPIException (IntegrityError orig) None 400 None),
            log @ [GetTable table_pk, CreateRecord table_pk (data req)])"
  using tab dict err
  by (simp add: create_def get_table_or_404_def Let_def HTTP_400_BAD_REQUEST_def)

theorem create_integrity_errors_witness:
  "tables nasa_env 1 = Some (spec_table nasa 1) \<and>
   is_dict (data null_case_number_request) \<and> is_dict (data duplicate_id_request) \<and>
   create_record_or_records (spec_table nasa 1) (data null_case_number_request) =
     Inl (IntegrityError \<lparr>pg_class = NotNullViolation,
                          pg_message = ''null value in column Case Number'',
                          pg_column = Some ''Case Number''\<rparr>) \<and>
   create_record_or_records (spec_table nasa 1) (data duplicate_id_request) =
     Inl (IntegrityError \<lparr>pg_class = UniqueViolation, pg_message = ''duplicate key value'',
                          pg_column = None\<rparr>) \<and>
   create nasa_env null_case_number_request 1 [] =
     (Raised (APIException NotNullViolationAPIException
                (IntegrityError \<lparr>pg_class = NotNullViolation,
                                  pg_message = ''null value in column Case Number'',
                                  pg_column = Some ''Case Number''\<rparr>)
                None 400 (Some 1)),
      [GetTable 1, CreateRecord 1 (data null_case_number_request)]) \<and>
   create nasa_env duplicate_id_request 1 [] =
     (Raised (APIException MathesarAPIException
                (IntegrityError \<lparr>pg_class = UniqueViolation, pg_message = ''duplicate key value'',
                                  pg_column = None\<rparr>)
                None 400 None),
      [GetTable 1, CreateRecord 1 (data duplicate_id_request)])"
proof -
  have tab: "tables nasa_env 1 = Some (spec_table nasa 1)"
    by (simp add: nasa_env_def)
  have d1: "is_dict (data null_case_number_request)" and d2: "is_dict (data duplicate_id_request)"
    by (simp_all add: request_defs)
  have e1: "create_record_or_records (spec_table nasa 1) (data null_case_number_request) =
     Inl (IntegrityError \<lparr>pg_class = NotNullViolation,
                          pg_message = ''null value in column Case Number'',
                          pg_column = Some ''Case Number''\<rparr>)"
    by (simp add: nasa_defs request_defs)
  have e2: "create_record_or_records (spec_table nasa 1) (data duplicate_id_request) =
     Inl (IntegrityError \<lparr>pg_class = UniqueViolation, pg_message = ''duplicate key value'',
                          pg_column = None\<rparr>)"
    by (simp add: nasa_defs request_defs)
  have t: "table_id (spec_table nasa 1) = 1" by (simp add: spec_table_def)
  from create_integrity_errors [OF tab d1 e1, of "[]"]
  have c1: "create nasa_env null_case_number_request 1 [] =
     (Raised (APIException NotNullViolationAPIException
                (IntegrityError \<lparr>pg_class = NotNullViolation,
                                  pg_message = ''null value in column Case Number'',
                                  pg_column = Some ''Case Number''\<rparr>)
                None 400 (Some 1)),
      [GetTable 1, CreateRecord 1 (data null_case_number_request)])"
    unfolding t by simp
  from create_integrity_errors [OF tab d2 e2, of "[]"]
  have c2: "create nasa_env duplicate_id_request 1 [] =
     (Raised (APIException MathesarAPIException
                (IntegrityError \<lparr>pg_class = UniqueViolation, pg_message = ''duplicate key value'',
                                  pg_column = None\<rparr>)
                None 400 None),
      [GetTable 1, CreateRecord 1 (data duplicate_id_request)])"
    by simp
  from tab d1 d2 e1 e2 c1 c2 show ?thesis by blast
qed

text \<open>
  C3 at the request \<open>?filter={"bogus_op": []}\<close>: the unknown operator raises
  \<open>UnknownDBFunctionID\<close> in the count query, and \<open>RecordViewSet.list\<close> surfaces one API
  exception with status 400 whose field is \<open>filters\<close>, which is not the name \<open>filter\<close> of
  the parameter.
\<close>

theorem unknown_filter_operator_is_tagged_filters:
  "list_records nasa_env bogus_request 1 [] =
     (Raised (APIException BadFilterAPIException UnknownDBFunctionID (Some ''filters'') 400 None),
      [GetTable 1, GetColumnMapping 1,
       RewriteSpec [(1, ''id''), (2, ''Center'')] (JObj [(''bogus_op'', JArr [])]),
       GetTable 1, SaNumRecords 1 (JObj [(''bogus_op'', JArr [])]) JNull False]) \<and>
   Some ''filters'' \<noteq> Some ''filter''"
  by (simp add: list_records_def rewrite_db_function_specs_def list_handler_def Let_def
      HTTP_400_BAD_REQUEST_def paginate_defs nasa_defs request_defs)

section \<open>Distinct groups partition the page\<close>

text \<open>
  C7. For a page that is not empty and was grouped in distinct mode, the groups that
  \<open>process_annotated_records\<close> returns partition the positions of the page: every position
  below the page size is in the \<open>result_indices\<close> of exactly one group, the indices of every
  group are positions of the page, not empty and strictly ascending; two positions are in
  the same group exactly when the rows there have equal value tuples on the grouped
  columns; and the groups stand in the order in which their first members appear in the
  page. The rows themselves are returned unchanged.
\<close>

theorem distinct_groups_partition_page:
  assumes dist: "mode g = ''distinct''"
      and page: "get_records (spec_table b pk) lim off f ob (Some g) dup d dd = Inr page"
      and nonempty: "page \<noteq> []"
  shows "\<exists>groups.
           process_annotated_records_spec page = (map record_data page, Some groups) \<and>
           (\<forall>j<length page. \<exists>!k. k < length groups \<and> j \<in> set (result_indices (groups ! k))) \<and>
           (\<forall>gr\<in>set groups. result_indices gr \<noteq> [] \<and> sorted_wrt (<) (result_indices gr) \<and>
                              set (result_indices gr) \<subseteq> {0..<length page}) \<and>
           (\<forall>i<length page. \<forall>j<length page.
              (\<exists>gr\<in>set groups. i \<in> set (result_indices gr) \<and> j \<in> set (result_indices gr))
                \<longleftrightarrow> group_key (columns g) (record_data (page ! i)) =
                    group_key (columns g) (record_data (page ! j))) \<and>
           sorted_wrt (<) (map (\<lambda>gr. hd (result_indices gr)) groups)"
proof -
  define rs where "rs = sort_rows b ob (duplicates_only dup (result_set b f d dd))"
  from page have "spec_get_records b lim off f ob (Some g) dup d dd = Inr page"
    by (simp add: spec_table_def)
  from spec_get_records_Inr [OF this] dist
  have pg: "page = window lim off (annotate_distinct (columns g) rs)"
    by (simp add: full_records_def annotate_def rs_def)
  have sub: "set page \<subseteq> set (annotate_distinct (columns g) rs)"
    unfolding pg by (rule set_window_subset)
  have all: "list_all (\<lambda>r. record_metadata r \<noteq> None) page"
    using sub by (auto simp: list_all_iff annotate_distinct_def Let_def)
  with nonempty have ex: "list_ex (\<lambda>r. record_metadata r \<noteq> None) page"
    by (cases page) simp_all
  let ?groups = "map snd (collect_groups 0 page [])"
  have run: "process_annotated_records_spec page = (map record_data page, Some ?groups)"
    using ex by (simp add: process_annotated_records_spec_def)
  have key: "\<And>i j. i < length page \<Longrightarrow> j < length page \<Longrightarrow>
               gid_at (page ! i) = gid_at (page ! j) \<longleftrightarrow>
               group_key (columns g) (record_data (page ! i)) =
                 group_key (columns g) (record_data (page ! j))"
    using sub by (intro annotate_distinct_same_group) auto
  from collect_groups_partition [OF all] key run show ?thesis
    by (intro exI [of _ ?groups]) simp
qed


theorem distinct_groups_partition_page_witness:
  "mode center_group_by = ''distinct'' \<and>
   get_records (spec_table nasa 1) 50 0 JNull (JArr []) (Some center_group_by) JNull JNull False =
     Inr (annotate_distinct [''Center''] nasa_rows) \<and>
   annotate_distinct [''Center''] nasa_rows \<noteq> [] \<and>
   process_annotated_records_spec (annotate_distinct [''Center''] nasa_rows) =
     (nasa_rows,
      Some [\<lparr>g_count = 1, first_value = [(''Center'', JStr ''Kennedy'')],
             last_value = [(''Center'', JStr ''Kennedy'')], result_indices = [0]\<rparr>,
            \<lparr>g_count = 2, first_value = [(''Center'', JStr ''Ames'')],
             last_value = [(''Center'', JStr ''Ames'')], result_indices = [1, 2]\<rparr>]) \<and>
   (\<exists>groups.
      process_annotated_records_spec (annotate_distinct [''Center''] nasa_rows) =
        (map record_data (annotate_distinct [''Center''] nasa_rows), Some groups) \<and>
      (\<forall>j<length (annotate_distinct [''Center''] nasa_rows).
         \<exists>!k. k < length groups \<and> j \<in> set (result_indices (groups ! k))) \<and>
      (\<forall>gr\<in>set groups.
         result_indices gr \<noteq> [] \<and> sorted_wrt (<) (result_indices gr) \<and>
         set (result_indices gr) \<subseteq> {0..<length (annotate_distinct [''Center''] nasa_rows)}) \<and>
      (\<forall>i<length (annotate_distinct [''Center''] nasa_rows).
         \<forall>j<length (annotate_distinct [''Center''] nasa_rows).
           (\<exists>gr\<in>set groups. i \<in> set (result_indices gr) \<and> j \<in> set (result_indices gr))
             \<longleftrightarrow> group_key (columns center_group_by)
                     (record_data (annotate_distinct [''Center''] nasa_rows ! i)) =
                 group_key (columns center_group_by)
                     (record_data (annotate_distinct [''Center''] nasa_rows ! j))) \<and>
      sorted_wrt (<) (map (\<lambda>gr. hd (result_indices gr)) groups))"
proof -
  have m: "mode center_group_by = ''distinct''"
    by (simp add: center_group_by_def)
  have p: "get_records (spec_table nasa 1) 50 0 JNull (JArr []) (Some center_group_by) JNull JNull
             False = Inr (annotate_distinct [''Center''] nasa_rows)"
    by (simp add: spec_table_def spec_get_records_def check_specs_def full_records_def
        result_set_def duplicates_only_def annotate_def window_def nasa_def
        center_group_by_def annotate_distinct_def nasa_rows_def)
  have n: "annotate_distinct [''Center''] nasa_rows \<noteq> []"
    by (simp add: annotate_distinct_def nasa_rows_def)
  have r: "process_annotated_records_spec (annotate_distinct [''Center''] nasa_rows) =
     (nasa_rows,
      Some [\<lparr>g_count = 1, first_value = [(''Center'', JStr ''Kennedy'')],
             last_value = [(''Center'', JStr ''Kennedy'')], result_indices = [0]\<rparr>,
            \<lparr>g_count = 2, first_value = [(''Center'', JStr ''Ames'')],
             last_value = [(''Center'', JStr ''Ames'')], result_indices = [1, 2]\<rparr>])"
    by (simp add: process_annotated_records_spec_def annotate_distinct_def nasa_rows_def
        group_key_def group_value_def)
  from distinct_groups_partition_page [OF m p n] m p n r show ?thesis
    by (intro conjI)
qed

end
